theory Spec2Isabelle
  imports Complex_Main "HOL-Library.Sublist"
begin

section \<open>JavaScript values used by js/main.js\<close>

text \<open>
  Strings are lists of code units; the model covers the code units below 256, which is
  what \<^typ>\<open>char\<close> holds. A DOM attribute read with \<^verbatim>\<open>getAttribute\<close> is a
  \<^typ>\<open>string option\<close>: \<^term>\<open>None\<close> is JavaScript's \<^verbatim>\<open>null\<close>.
\<close>

type_synonym attr = "string option"

text \<open>
  The white space of \<^verbatim>\<open>String.prototype.trim\<close>, of the regular expression class
  \<^verbatim>\<open>\s\<close> and of \<^verbatim>\<open>parseInt\<close>: TAB, LF, VT, FF, CR, SPACE and NBSP are the
  ones below 256.
\<close>

definition isWhiteSpace :: "char \<Rightarrow> bool" where
  "isWhiteSpace c \<longleftrightarrow>
     c = CHR 0x09 \<or> c = CHR 0x0A \<or> c = CHR 0x0B \<or> c = CHR 0x0C \<or> c = CHR 0x0D \<or>
     c = CHR 0x20 \<or> c = CHR 0xA0"

definition trimStart :: "string \<Rightarrow> string" where
  "trimStart s = dropWhile isWhiteSpace s"

definition trim :: "string \<Rightarrow> string" where
  "trim s = rev (dropWhile isWhiteSpace (rev (dropWhile isWhiteSpace s)))"

text \<open>Truthiness of a string value: the empty string is falsy.\<close>

definition truthy :: "string \<Rightarrow> bool" where
  "truthy s \<longleftrightarrow> s \<noteq> []"

text \<open>
  \<^verbatim>\<open>parseInt(s)\<close> with no radix: leading white space is skipped, a sign is read, a
  \<^verbatim>\<open>0x\<close> prefix selects radix 16, and the longest run of digits is the value;
  \<^term>\<open>None\<close> is \<^verbatim>\<open>NaN\<close>. Numbers are exact integers here (the source's doubles
  are, up to \<open>2^53\<close>).
\<close>

definition digitValue :: "nat \<Rightarrow> char \<Rightarrow> nat option" where
  "digitValue radix c =
     (let n = (of_char c :: nat);
          v = (if 48 \<le> n \<and> n \<le> 57 then Some (n - 48)
               else if 97 \<le> n \<and> n \<le> 102 then Some (n - 87)
               else if 65 \<le> n \<and> n \<le> 70 then Some (n - 55)
               else None)
      in case v of None \<Rightarrow> None | Some d \<Rightarrow> if d < radix then Some d else None)"

definition digitsValue :: "nat \<Rightarrow> string \<Rightarrow> nat" where
  "digitsValue radix ds =
     foldl (\<lambda>acc c. acc * radix + (case digitValue radix c of None \<Rightarrow> 0 | Some d \<Rightarrow> d)) 0 ds"

definition parseInt :: "string \<Rightarrow> int option" where
  "parseInt s =
     (let s1 = trimStart s;
          negative = (case s1 of [] \<Rightarrow> False | c # _ \<Rightarrow> c = CHR ''-'');
          s2 = (case s1 of [] \<Rightarrow> [] | c # r \<Rightarrow> if c = CHR ''-'' \<or> c = CHR ''+'' then r else s1);
          hex = (take 2 s2 = ''0x'' \<or> take 2 s2 = ''0X'');
          radix = (if hex then 16 else 10);
          s3 = (if hex then drop 2 s2 else s2);
          z = takeWhile (\<lambda>c. digitValue radix c \<noteq> None) s3
      in if z = [] then None
         else Some (if negative then - int (digitsValue radix z) else int (digitsValue radix z)))"

text \<open>\<^verbatim>\<open>String(n)\<close> for an integer \<open>n\<close>: decimal digits, with a minus sign.\<close>

fun natString :: "nat \<Rightarrow> string" where
  "natString n =
     (if n < 10 then [char_of (48 + n)]
      else natString (n div 10) @ [char_of (48 + n mod 10)])"

declare natString.simps [simp del]

definition numberString :: "int \<Rightarrow> string" where
  "numberString i = (if i < 0 then CHR ''-'' # natString (nat (- i)) else natString (nat i))"

section \<open>Utils\<close>

subsection \<open>Utils.showLoading and Utils.hideLoading\<close>

text \<open>
  The two properties of an element that the helpers read and write. \<open>innerHTML\<close> is
  what reading the property gives: the serialisation of the element's content. Assigning
  a string makes the browser parse it, so what reads back afterwards is the
  serialisation of the parsed content, which can differ from the string assigned. That
  step of the browser is a parameter of the helpers, \<open>readBack\<close>: the string that
  \<open>innerHTML\<close> reads after a given string has been assigned to it.
\<close>

record element =
  innerHTML :: string
  disabled :: bool

definition loadingMarkup :: "string \<Rightarrow> string" where
  \<open>loadingMarkup text =
     [CHR 0x0A] @ ''            <i class="fas fa-spinner fa-spin" aria-hidden="true"></i>'' @
     [CHR 0x0A] @ ''            <span>'' @ text @ ''</span>'' @
     [CHR 0x0A] @ ''        ''\<close>

text \<open>
  \<^verbatim>\<open>showLoading(element, text = 'Loading...')\<close> mutates the element and returns its
  former content: the model returns the pair of the new element and that content.
\<close>

definition showLoading :: "(string \<Rightarrow> string) \<Rightarrow> element \<Rightarrow> string \<Rightarrow> element \<times> string" where
  "showLoading readBack el text =
     (let originalContent = innerHTML el
      in (el\<lparr>innerHTML := readBack (loadingMarkup text), disabled := True\<rparr>, originalContent))"

definition showLoadingDefault :: "(string \<Rightarrow> string) \<Rightarrow> element \<Rightarrow> element \<times> string" where
  "showLoadingDefault readBack el = showLoading readBack el ''Loading...''"

definition hideLoading :: "(string \<Rightarrow> string) \<Rightarrow> element \<Rightarrow> string \<Rightarrow> element" where
  "hideLoading readBack el originalContent =
     el\<lparr>innerHTML := readBack originalContent, disabled := False\<rparr>"

text \<open>
  What a browser reads back for markup made only of \<^verbatim>\<open><p>\<close> and \<^verbatim>\<open></p>\<close> tags. The
  tree builder never nests such elements: a start tag closes the \<^verbatim>\<open>p\<close> that is open
  and opens a new one, an end tag closes the open one or, when none is open, inserts an
  empty one; the end of the input closes what is open. The content is therefore a row of
  empty \<^verbatim>\<open>p\<close> elements, one for each start tag and one for each end tag met with none
  open. \<open>pTokens\<close> reads the tags (\<^term>\<open>True\<close> a start tag), with the length of the
  string as fuel, and gives \<^term>\<open>None\<close> for any other markup; \<open>readBackP\<close> leaves such
  markup as it is, which is how a browser reads back the spinner markup with a plain
  text, or a plain text alone.
\<close>

fun pTokensAux :: "nat \<Rightarrow> string \<Rightarrow> bool list option" where
  "pTokensAux 0 s = (if s = [] then Some [] else None)"
| "pTokensAux (Suc n) s =
     (if s = [] then Some []
      else if take 3 s = ''<p>'' then map_option (\<lambda>ts. True # ts) (pTokensAux n (drop 3 s))
      else if take 4 s = ''</p>'' then map_option (\<lambda>ts. False # ts) (pTokensAux n (drop 4 s))
      else None)"

definition pTokens :: "string \<Rightarrow> bool list option" where
  "pTokens s = pTokensAux (length s) s"

fun pElements :: "bool list \<Rightarrow> bool \<Rightarrow> nat" where
  "pElements [] isOpen = 0"
| "pElements (True # ts) isOpen = Suc (pElements ts True)"
| "pElements (False # ts) isOpen = (if isOpen then pElements ts False else Suc (pElements ts False))"

definition readBackP :: "string \<Rightarrow> string" where
  "readBackP s =
     (case pTokens s of
        Some ts \<Rightarrow> concat (replicate (pElements ts False) ''<p></p>'')
      | None \<Rightarrow> s)"

subsection \<open>Utils.animateCounter\<close>

text \<open>
  The closure of \<^verbatim>\<open>animateCounter\<close>: the element's text, the local \<^verbatim>\<open>current\<close>,
  the constants \<^verbatim>\<open>increment\<close> and \<^verbatim>\<open>target\<close>, and whether the interval timer is
  still set. \<^verbatim>\<open>current\<close> and \<^verbatim>\<open>increment\<close> are exact rationals: the rounding of
  the source's doubles is not modelled. A duration of 0 makes the increment infinite or
  \<^verbatim>\<open>NaN\<close> in the source and is outside the model (\<^term>\<open>None\<close>).
\<close>

record counter =
  textContent :: string
  current :: rat
  increment :: rat
  target :: int
  timerSet :: bool

definition animateCounter :: "string \<Rightarrow> int \<Rightarrow> rat \<Rightarrow> counter option" where
  "animateCounter text tgt duration =
     (let start = (case parseInt text of None \<Rightarrow> 0 | Some n \<Rightarrow> n)
      in if duration = 0 then None
         else Some \<lparr>textContent = text, current = of_int start,
                    increment = (of_int tgt - of_int start) / (duration / 16),
                    target = tgt, timerSet = True\<rparr>)"

text \<open>One run of the interval callback; a cleared timer no longer runs it.\<close>

definition tick :: "counter \<Rightarrow> counter" where
  "tick c =
     (if \<not> timerSet c then c
      else
        let cur = current c + increment c;
            reached = ((increment c > 0 \<and> cur \<ge> of_int (target c)) \<or>
                       (increment c < 0 \<and> cur \<le> of_int (target c)));
            cur' = (if reached then of_int (target c) else cur)
        in c\<lparr>current := cur', timerSet := \<not> reached,
               textContent := numberString \<lfloor>cur'\<rfloor>\<rparr>)"

text \<open>The state after the callback has been due \<open>n\<close> times (every 16 ms).\<close>

fun ticks :: "nat \<Rightarrow> counter \<Rightarrow> counter" where
  "ticks 0 c = c"
| "ticks (Suc n) c = ticks n (tick c)"

section \<open>SkillsManager\<close>

text \<open>
  A navigation or filter button: its \<^verbatim>\<open>data-category\<close> (skills) or \<^verbatim>\<open>data-filter\<close>
  (projects) attribute and whether its class list holds \<^verbatim>\<open>active\<close>.
\<close>

record navBtn =
  btnValue :: attr
  btnActive :: bool

record skillBar =
  dataWidth :: attr
  styleWidth :: string

record skillCategory =
  catCategory :: attr
  catActive :: bool
  skillBars :: "skillBar list"

text \<open>
  \<open>skillTimeouts\<close> holds the timeouts that \<open>switchCategory\<close> has set: each with its
  delay, and the category and bar (by position) whose width its callback sets.
\<close>

record skillsManager =
  skillNavBtns :: "navBtn list"
  skillCategories :: "skillCategory list"
  currentCategory :: attr
  skillTimeouts :: "(nat \<times> nat \<times> nat) list"

definition barTimeouts :: "attr \<Rightarrow> skillCategory list \<Rightarrow> (nat \<times> nat \<times> nat) list" where
  "barTimeouts category cats =
     concat (map (\<lambda>(ci, cat).
        if catCategory cat = category
        then map (\<lambda>index. (index * 100, ci, index)) [0 ..< length (skillBars cat)]
        else []) (zip [0 ..< length cats] cats))"

definition switchCategory :: "attr \<Rightarrow> skillsManager \<Rightarrow> skillsManager" where
  "switchCategory category s =
     (if category = currentCategory s then s
      else s\<lparr>skillNavBtns := map (\<lambda>btn. btn\<lparr>btnActive := (btnValue btn = category)\<rparr>) (skillNavBtns s),
             skillCategories := map (\<lambda>cat. cat\<lparr>catActive := (catCategory cat = category)\<rparr>) (skillCategories s),
             skillTimeouts := skillTimeouts s @ barTimeouts category (skillCategories s),
             currentCategory := category\<rparr>)"

text \<open>
  The callback of such a timeout: the bar's width becomes its \<^verbatim>\<open>data-width\<close>
  attribute (a missing attribute clears the width).
\<close>

definition runSkillTimeout :: "nat \<times> nat \<Rightarrow> skillsManager \<Rightarrow> skillsManager" where
  "runSkillTimeout t s =
     (case t of (ci, index) \<Rightarrow>
        s\<lparr>skillCategories :=
            map (\<lambda>(i, cat).
                   if i = ci
                   then cat\<lparr>skillBars :=
                          map (\<lambda>(j, bar).
                                 if j = index
                                 then bar\<lparr>styleWidth := (case dataWidth bar of None \<Rightarrow> [] | Some w \<Rightarrow> w)\<rparr>
                                 else bar)
                              (zip [0 ..< length (skillBars cat)] (skillBars cat))\<rparr>
                   else cat)
                (zip [0 ..< length (skillCategories s)] (skillCategories s))\<rparr>)"

section \<open>ProjectsManager\<close>

text \<open>\<^verbatim>\<open>haystack.includes(needle)\<close>: the needle occurs as a contiguous run.\<close>

fun includesStr :: "string \<Rightarrow> string \<Rightarrow> bool" where
  "includesStr [] needle = (needle = [])"
| "includesStr (c # cs) needle = (take (length needle) (c # cs) = needle \<or> includesStr cs needle)"

text \<open>A value used as a string: \<^verbatim>\<open>null\<close> becomes the text \<^verbatim>\<open>null\<close>.\<close>

definition attrString :: "attr \<Rightarrow> string" where
  "attrString a = (case a of None \<Rightarrow> ''null'' | Some v \<Rightarrow> v)"

text \<open>The two callbacks that \<open>filterProjects\<close> hands to \<^verbatim>\<open>setTimeout\<close>.\<close>

datatype cardTimeout = AnimateIn | HideCard

text \<open>
  A project card: its \<^verbatim>\<open>data-category\<close> attribute, the inline style properties the
  manager writes, and the timeouts set on it that have not fired yet, each with the
  time left, in the order they were set. Every callback touches only its own card.
\<close>

record projectCard =
  cardCategory :: attr
  display :: string
  opacity :: string
  transform :: string
  transition :: string
  pending :: "(nat \<times> cardTimeout) list"

record projectsManager =
  filterBtns :: "navBtn list"
  projectCards :: "projectCard list"
  currentFilter :: attr

text \<open>The \<^verbatim>\<open>data-category\<close> tag as \<open>filterProjects\<close> reads it: \<^verbatim>\<open>null || ''\<close>.\<close>

definition categoryTag :: "projectCard \<Rightarrow> string" where
  "categoryTag pcard = (case cardCategory pcard of None \<Rightarrow> [] | Some v \<Rightarrow> v)"

definition shouldShow :: "attr \<Rightarrow> projectCard \<Rightarrow> bool" where
  "shouldShow filter' pcard =
     (let categories = categoryTag pcard
      in filter' = Some ''all'' \<or> includesStr categories (attrString filter'))"

definition filterCard :: "attr \<Rightarrow> projectCard \<Rightarrow> projectCard" where
  "filterCard filter' pcard =
     (let card1 = pcard\<lparr>transition := ''all 0.3s ease''\<rparr>
      in if shouldShow filter' pcard
         then card1\<lparr>display := ''block'', opacity := ''0'', transform := ''scale(0.8)'',
                    pending := pending pcard @ [(50, AnimateIn)]\<rparr>
         else card1\<lparr>opacity := ''0'', transform := ''scale(0.8)'',
                    pending := pending pcard @ [(300, HideCard)]\<rparr>)"

definition filterProjects :: "attr \<Rightarrow> projectsManager \<Rightarrow> projectsManager" where
  "filterProjects filter' s =
     (if filter' = currentFilter s then s
      else s\<lparr>filterBtns := map (\<lambda>btn. btn\<lparr>btnActive := (btnValue btn = filter')\<rparr>) (filterBtns s),
             projectCards := map (filterCard filter') (projectCards s),
             currentFilter := filter'\<rparr>)"

definition runCardTimeout :: "cardTimeout \<Rightarrow> projectCard \<Rightarrow> projectCard" where
  "runCardTimeout t pcard =
     (case t of
        AnimateIn \<Rightarrow> pcard\<lparr>opacity := ''1'', transform := ''scale(1)''\<rparr>
      | HideCard \<Rightarrow> pcard\<lparr>display := ''none''\<rparr>)"

text \<open>
  \<open>ms\<close> milliseconds pass: the timeouts due by then fire, earliest first and in the
  order they were set when due together; the others have that much less to wait.
\<close>

definition elapseCard :: "nat \<Rightarrow> projectCard \<Rightarrow> projectCard" where
  "elapseCard ms pcard =
     (let due = sort_key fst (filter (\<lambda>(d, t). d \<le> ms) (pending pcard));
          later = map (\<lambda>(d, t). (d - ms, t)) (filter (\<lambda>(d, t). \<not> d \<le> ms) (pending pcard))
      in fold (\<lambda>(d, t). runCardTimeout t) due (pcard\<lparr>pending := later\<rparr>))"

definition elapse :: "nat \<Rightarrow> projectsManager \<Rightarrow> projectsManager" where
  "elapse ms s = s\<lparr>projectCards := map (elapseCard ms) (projectCards s)\<rparr>"

text \<open>A card is visible when it is laid out and opaque.\<close>

definition visible :: "projectCard \<Rightarrow> bool" where
  "visible pcard \<longleftrightarrow> display pcard \<noteq> ''none'' \<and> opacity pcard = ''1''"

text \<open>No timeout of an earlier filter change is pending on any card.\<close>

definition settled :: "projectsManager \<Rightarrow> bool" where
  "settled s \<longleftrightarrow> list_all (\<lambda>pcard. pending pcard = []) (projectCards s)"

text \<open>A page with one project card tagged \<^verbatim>\<open>web\<close>, showing all projects.\<close>

definition webCard :: projectCard where
  "webCard = \<lparr>cardCategory = Some ''web'', display = ''block'', opacity = ''1'',
              transform = ''scale(1)'', transition = '''', pending = []\<rparr>"

definition onePage :: projectsManager where
  "onePage = \<lparr>filterBtns = [], projectCards = [webCard], currentFilter = Some ''all''\<rparr>"

section \<open>AnimationManager\<close>

text \<open>
  DOM nodes are identified by a number. The manager reads a node's \<^verbatim>\<open>data-aos\<close>,
  \<^verbatim>\<open>data-aos-delay\<close> and \<^verbatim>\<open>data-width\<close> attributes.
\<close>

type_synonym node = nat

record nodeAttrs =
  dataAos :: attr
  dataAosDelay :: attr
  dataWidthAttr :: attr

text \<open>
  What a callback handed to \<^verbatim>\<open>setTimeout\<close> will do: reveal a node (add the class
  \<^verbatim>\<open>aos-animate\<close> and set the style for the animation type read when it was set), or
  set a skill bar's width.
\<close>

datatype timeoutAction = Reveal node attr | SetWidth node attr

text \<open>
  The manager's set of animated nodes, and every timeout its observer callbacks have set
  so far, in order, each with its delay.
\<close>

record animationManager =
  animatedElements :: "node set"
  timeouts :: "(nat \<times> timeoutAction) list"

text \<open>
  \<^verbatim>\<open>parseInt(element.getAttribute('data-aos-delay') || 0)\<close> as the delay of a timeout:
  \<^verbatim>\<open>NaN\<close> and negative delays count as 0.
\<close>

definition aosDelay :: "attr \<Rightarrow> nat" where
  "aosDelay a =
     (case a of None \<Rightarrow> 0
      | Some v \<Rightarrow> if truthy v then (case parseInt v of None \<Rightarrow> 0 | Some n \<Rightarrow> nat n) else 0)"

definition animateElement :: "(node \<Rightarrow> nodeAttrs) \<Rightarrow> node \<Rightarrow> animationManager \<Rightarrow> animationManager" where
  "animateElement doc element s =
     (let animationType = dataAos (doc element);
          delay = dataAosDelay (doc element)
      in s\<lparr>timeouts := timeouts s @ [(aosDelay delay, Reveal element animationType)]\<rparr>)"

text \<open>An \<^verbatim>\<open>IntersectionObserverEntry\<close>: its target and \<^verbatim>\<open>isIntersecting\<close>.\<close>

type_synonym entry = "node \<times> bool"

text \<open>The observer callback of \<open>setupScrollAnimations\<close>, one entry and then all of them.\<close>

definition scrollAnimationEntry :: "(node \<Rightarrow> nodeAttrs) \<Rightarrow> entry \<Rightarrow> animationManager \<Rightarrow> animationManager" where
  "scrollAnimationEntry doc e s =
     (if snd e \<and> fst e \<notin> animatedElements s
      then (animateElement doc (fst e) s)\<lparr>animatedElements := insert (fst e) (animatedElements s)\<rparr>
      else s)"

definition scrollAnimationCallback :: "(node \<Rightarrow> nodeAttrs) \<Rightarrow> entry list \<Rightarrow> animationManager \<Rightarrow> animationManager" where
  "scrollAnimationCallback doc entries s = fold (scrollAnimationEntry doc) entries s"

text \<open>The observer callback of \<open>setupSkillBars\<close>, which shares \<open>animatedElements\<close>.\<close>

definition skillBarEntry :: "(node \<Rightarrow> nodeAttrs) \<Rightarrow> entry \<Rightarrow> animationManager \<Rightarrow> animationManager" where
  "skillBarEntry doc e s =
     (if snd e \<and> fst e \<notin> animatedElements s
      then s\<lparr>timeouts := timeouts s @ [(200, SetWidth (fst e) (dataWidthAttr (doc (fst e))))],
             animatedElements := insert (fst e) (animatedElements s)\<rparr>
      else s)"

definition skillBarCallback :: "(node \<Rightarrow> nodeAttrs) \<Rightarrow> entry list \<Rightarrow> animationManager \<Rightarrow> animationManager" where
  "skillBarCallback doc entries s = fold (skillBarEntry doc) entries s"

text \<open>The state the constructor leaves, and the observer callbacks that follow it.\<close>

definition newAnimationManager :: animationManager where
  "newAnimationManager = \<lparr>animatedElements = {}, timeouts = []\<rparr>"

datatype observerEvent = ScrollAnimations "entry list" | SkillBars "entry list"

fun observe :: "(node \<Rightarrow> nodeAttrs) \<Rightarrow> observerEvent \<Rightarrow> animationManager \<Rightarrow> animationManager" where
  "observe doc (ScrollAnimations entries) s = scrollAnimationCallback doc entries s"
| "observe doc (SkillBars entries) s = skillBarCallback doc entries s"

text \<open>How many times the reveal of a node has been triggered.\<close>

definition reveals :: "node \<Rightarrow> animationManager \<Rightarrow> nat" where
  "reveals n s = length (filter (\<lambda>(d, a). case a of Reveal m t \<Rightarrow> m = n | SetWidth m w \<Rightarrow> False) (timeouts s))"

text \<open>
  The invariant of the observer callbacks: a node's reveal has been triggered at most
  once, and never for a node outside \<open>animatedElements\<close>.
\<close>

definition revealedOnce :: "animationManager \<Rightarrow> bool" where
  "revealedOnce s \<longleftrightarrow> (\<forall>n. reveals n s \<le> 1 \<and> (n \<notin> animatedElements s \<longrightarrow> reveals n s = 0))"

section \<open>ContactFormManager\<close>

subsection \<open>Utils.isValidEmail\<close>

text \<open>
  The pattern \<^verbatim>\<open>/^[^\s@]+@[^\s@]+\.[^\s@]+$/\<close> as a list of items, each a literal
  character or one-or-more characters that are neither white space nor \<^verbatim>\<open>@\<close>, and
  the anchored backtracking match of such a list against a string.
\<close>

datatype regexItem = Chr char | NotSpaceAtPlus

definition notSpaceAt :: "char \<Rightarrow> bool" where
  "notSpaceAt c \<longleftrightarrow> \<not> isWhiteSpace c \<and> c \<noteq> CHR ''@''"

fun regexTest :: "regexItem list \<Rightarrow> string \<Rightarrow> bool" where
  "regexTest [] [] = True"
| "regexTest [] (x # xs) = False"
| "regexTest (item # items) [] = False"
| "regexTest (Chr c # items) (x # xs) = (x = c \<and> regexTest items xs)"
| "regexTest (NotSpaceAtPlus # items) (x # xs) =
     (notSpaceAt x \<and> (regexTest items xs \<or> regexTest (NotSpaceAtPlus # items) xs))"

definition emailRegex :: "regexItem list" where
  "emailRegex = [NotSpaceAtPlus, Chr CHR ''@'', NotSpaceAtPlus, Chr CHR ''.'', NotSpaceAtPlus]"

definition isValidEmail :: "string \<Rightarrow> bool" where
  "isValidEmail email = regexTest emailRegex email"

subsection \<open>The form and the page around it\<close>

datatype tag = Input | Select | Textarea

text \<open>
  A form control: what the manager reads of it (tag, id, name, type, value, the
  \<^verbatim>\<open>required\<close> and \<^verbatim>\<open>minlength\<close> attributes), the value \<^verbatim>\<open>form.reset()\<close> gives it
  back, whether it is disabled and (a checkbox or radio button) checked, which decide
  whether \<^verbatim>\<open>FormData\<close> takes it, and what the manager writes: the class \<^verbatim>\<open>error\<close>
  and the attribute \<^verbatim>\<open>aria-invalid\<close>.
\<close>

record field =
  tagName :: tag
  fieldId :: string
  fieldName :: string
  fieldType :: string
  fieldValue :: string
  defaultValue :: string
  fieldDisabled :: bool
  checked :: bool
  required :: bool
  minlength :: attr
  classError :: bool
  ariaInvalid :: attr

text \<open>The element \<^verbatim>\<open><name>-error\<close> of a field: its text and the class \<^verbatim>\<open>show\<close>.\<close>

record errorElement =
  errorText :: string
  classShow :: bool

text \<open>
  The success and the error box of the banner: the \<^verbatim>\<open>display\<close> style and the text of
  the first \<^verbatim>\<open>p\<close> inside, when there is one.
\<close>

record messageEl =
  msgDisplay :: string
  msgP :: "string option"

text \<open>
  What leaves the page: a call of \<^verbatim>\<open>emailjs.send\<close>, of \<^verbatim>\<open>gtag\<close>, the
  \<^verbatim>\<open>console.log\<close> of a tracked event, a \<^verbatim>\<open>console.error\<close>, and
  \<^verbatim>\<open>scrollIntoView\<close>. A property value \<^term>\<open>None\<close> is \<^verbatim>\<open>undefined\<close>. The
  debugging \<^verbatim>\<open>console.log\<close> calls of the handler are left out.
\<close>

datatype effect =
    EmailSend string string "(string \<times> string) list"
  | Gtag string string "(string \<times> attr) list"
  | EventTracked string "(string \<times> attr) list"
  | ConsoleError string string
  | ScrollIntoView

text \<open>The exceptions of the browser that the manager can run into.\<close>

datatype domError = SyntaxError | TypeError

text \<open>
  Three steps of the browser are parameters of the model. \<open>quotedLabel\<close> is the answer
  of \<^verbatim>\<open>form.querySelector('label[for="' + id + '"]')\<close> for an id that holds a double
  quote, a backslash, a line break or a null character: such an id changes the selector
  that is parsed, so the call throws \<^verbatim>\<open>SyntaxError\<close> (\<open>Inl\<close>) or looks up another
  value (the text of the label found, or \<^term>\<open>None\<close>). \<open>doubleString\<close> is the
  string of the double nearest to an integer beyond \<open>2^53\<close>. \<open>readBack\<close> is what
  \<open>innerHTML\<close> reads after a string has been assigned to the submit button.
\<close>

record platform =
  quotedLabel :: "string \<Rightarrow> domError + string option"
  doubleString :: "int \<Rightarrow> string"
  readBack :: "string \<Rightarrow> string"

text \<open>
  The manager and the part of the page it works on. The labels are the pairs of the
  \<^verbatim>\<open>for\<close> attribute and the text of the form's labels, in document order; the
  error elements are found by id; the three banner elements and the submit button may
  be missing from the page (\<^term>\<open>None\<close>). \<open>feedback\<close> is the \<^verbatim>\<open>display\<close> style of
  \<^verbatim>\<open>#form-feedback\<close>; \<open>feedbackTimeouts\<close> holds the delay of each pending timeout
  that hides it. \<open>emailjsDefined\<close> and \<open>gtagDefined\<close> say whether the globals exist;
  \<open>timestamp\<close>, \<open>userAgent\<close> and \<open>pageUrl\<close> are what \<^verbatim>\<open>new Date().toISOString()\<close>,
  \<^verbatim>\<open>navigator.userAgent\<close> and \<^verbatim>\<open>window.location.href\<close> give.
\<close>

record contactForm =
  platform :: platform
  formFields :: "field list"
  labels :: "(string \<times> string) list"
  errorElements :: "string \<rightharpoonup> errorElement"
  feedback :: "string option"
  successEl :: "messageEl option"
  errorEl :: "messageEl option"
  feedbackTimeouts :: "nat list"
  submitBtn :: "element option"
  isSubmitting :: bool
  emailjsDefined :: bool
  gtagDefined :: bool
  timestamp :: string
  userAgent :: string
  pageUrl :: string
  effects :: "effect list"

subsection \<open>Field validation\<close>

text \<open>\<^verbatim>\<open>s.replace('*', '')\<close>: the first asterisk is removed.\<close>

fun removeFirstStar :: "string \<Rightarrow> string" where
  "removeFirstStar [] = []"
| "removeFirstStar (c # cs) = (if c = CHR ''*'' then cs else c # removeFirstStar cs)"

text \<open>
  An id that can stand between the double quotes of the selector as it is: the selector
  then matches the labels whose \<^verbatim>\<open>for\<close> attribute is the id.
\<close>

definition plainChar :: "char \<Rightarrow> bool" where
  "plainChar c \<longleftrightarrow>
     \<not> (c = CHR 0x22 \<or> c = CHR 0x5C \<or> c = CHR 0x0A \<or> c = CHR 0x0D \<or> c = CHR 0x0C \<or> c = CHR 0x00)"

definition plainId :: "string \<Rightarrow> bool" where
  "plainId v \<longleftrightarrow> list_all plainChar v"

definition queryLabel :: "platform \<Rightarrow> (string \<times> string) list \<Rightarrow> string \<Rightarrow> domError + string option" where
  "queryLabel pf lbls v = (if plainId v then Inr (map_of lbls v) else quotedLabel pf v)"

definition getFieldLabel :: "platform \<Rightarrow> (string \<times> string) list \<Rightarrow> field \<Rightarrow> domError + string" where
  "getFieldLabel pf lbls fld =
     (case queryLabel pf lbls (fieldId fld) of
        Inl e \<Rightarrow> Inl e
      | Inr (Some labelText) \<Rightarrow> Inr (trim (removeFirstStar labelText))
      | Inr None \<Rightarrow> Inr (fieldName fld))"

text \<open>
  A number in a template literal: the decimal digits of an integer that a double holds
  exactly, the platform's string beyond.
\<close>

definition printNumber :: "platform \<Rightarrow> int \<Rightarrow> string" where
  "printNumber pf n = (if \<bar>n\<bar> \<le> 2 ^ 53 then numberString n else doubleString pf n)"

definition errorId :: "field \<Rightarrow> string" where
  "errorId fld = fieldName fld @ ''-error''"

definition showFieldError ::
  "field \<Rightarrow> string \<Rightarrow> (string \<rightharpoonup> errorElement) \<Rightarrow> field \<times> (string \<rightharpoonup> errorElement)" where
  "showFieldError fld message errs =
     (fld\<lparr>classError := True, ariaInvalid := Some ''true''\<rparr>,
      case errs (errorId fld) of
        Some errorElement \<Rightarrow> errs(errorId fld \<mapsto> errorElement\<lparr>errorText := message, classShow := True\<rparr>)
      | None \<Rightarrow> errs)"

definition clearFieldError ::
  "field \<Rightarrow> (string \<rightharpoonup> errorElement) \<Rightarrow> field \<times> (string \<rightharpoonup> errorElement)" where
  "clearFieldError fld errs =
     (fld\<lparr>classError := False, ariaInvalid := None\<rparr>,
      case errs (errorId fld) of
        Some errorElement \<Rightarrow> errs(errorId fld \<mapsto> errorElement\<lparr>errorText := [], classShow := False\<rparr>)
      | None \<Rightarrow> errs)"

text \<open>
  \<open>validateField\<close> returns \<open>isValid\<close> (\<open>Inr\<close>) or throws what the label lookup throws
  (\<open>Inl\<close>); the model returns with it the field and the error elements as the call
  leaves them. The label is looked up only where a message needs it, after the earlier
  error has been cleared.
\<close>

definition validateField ::
  "platform \<Rightarrow> (string \<times> string) list \<Rightarrow> field \<Rightarrow> (string \<rightharpoonup> errorElement) \<Rightarrow>
   (domError + bool) \<times> field \<times> (string \<rightharpoonup> errorElement)" where
  "validateField pf lbls fld errs =
     (let val = trim (fieldValue fld);
          (fld1, errs1) = clearFieldError fld errs;
          decision =
            (if required fld \<and> \<not> truthy val
               then (case getFieldLabel pf lbls fld of
                       Inl e \<Rightarrow> Inl e
                     | Inr lbl \<Rightarrow> Inr (False, lbl @ '' is required.''))
             else if fieldType fld = ''email'' \<and> truthy val \<and> \<not> isValidEmail val
               then Inr (False, ''Please enter a valid email address.'')
             else if minlength fld \<noteq> None
               then (case parseInt (attrString (minlength fld)) of
                       None \<Rightarrow> Inr (True, [])
                     | Some minLength \<Rightarrow>
                         if int (length val) < minLength
                         then (case getFieldLabel pf lbls fld of
                                 Inl e \<Rightarrow> Inl e
                               | Inr lbl \<Rightarrow>
                                   Inr (False, lbl @ '' must be at least '' @
                                               printNumber pf minLength @ '' characters.''))
                         else Inr (True, []))
             else Inr (True, []))
      in case decision of
           Inl e \<Rightarrow> (Inl e, fld1, errs1)
         | Inr (isValid, errorMessage) \<Rightarrow>
             if \<not> isValid
             then (case showFieldError fld1 errorMessage errs1 of (fld2, errs2) \<Rightarrow> (Inr False, fld2, errs2))
             else (Inr True, fld1, errs1))"

text \<open>
  The rules as the specification words them, for comparison with \<open>validateField\<close>:
  the message of the first rule that a field breaks, in the order required, email,
  minlength, or \<^term>\<open>None\<close> for a valid field. \<open>lbl\<close> is the field's label and
  \<open>printN\<close> prints the number \<open>N\<close> read from the \<^verbatim>\<open>minlength\<close> attribute.
\<close>

definition ruleMessage :: "string \<Rightarrow> (int \<Rightarrow> string) \<Rightarrow> field \<Rightarrow> string option" where
  "ruleMessage lbl printN fld =
     (if required fld \<and> trim (fieldValue fld) = []
        then Some (lbl @ '' is required.'')
      else if fieldType fld = ''email'' \<and> trim (fieldValue fld) \<noteq> [] \<and>
              \<not> isValidEmail (trim (fieldValue fld))
        then Some ''Please enter a valid email address.''
      else case minlength fld of
             None \<Rightarrow> None
           | Some a \<Rightarrow>
               (case parseInt a of
                  None \<Rightarrow> None
                | Some N \<Rightarrow>
                    if int (length (trim (fieldValue fld))) < N
                    then Some (lbl @ '' must be at least '' @ printN N @ '' characters.'')
                    else None))"

text \<open>
  The label lookup of a field does not throw; the label it gives then; and the message
  of the rules with that label and the platform's printing of \<open>N\<close>.
\<close>

definition labelReads :: "platform \<Rightarrow> (string \<times> string) list \<Rightarrow> field \<Rightarrow> bool" where
  "labelReads pf lbls fld = (case getFieldLabel pf lbls fld of Inl e \<Rightarrow> False | Inr lbl \<Rightarrow> True)"

definition labelText :: "platform \<Rightarrow> (string \<times> string) list \<Rightarrow> field \<Rightarrow> string" where
  "labelText pf lbls fld = (case getFieldLabel pf lbls fld of Inl e \<Rightarrow> [] | Inr lbl \<Rightarrow> lbl)"

definition fieldMessage :: "platform \<Rightarrow> (string \<times> string) list \<Rightarrow> field \<Rightarrow> string option" where
  "fieldMessage pf lbls fld = ruleMessage (labelText pf lbls fld) (printNumber pf) fld"

text \<open>
  The loop of the handler over \<^verbatim>\<open>input[required], select[required], textarea[required]\<close>:
  each required control is validated in document order, and \<open>isFormValid\<close> is set to
  false at each one that fails. An exception of \<open>validateField\<close> ends the loop where it
  is thrown: the controls after it are not validated.
\<close>

fun validateRequired ::
  "platform \<Rightarrow> (string \<times> string) list \<Rightarrow> field list \<Rightarrow> bool \<Rightarrow> (string \<rightharpoonup> errorElement) \<Rightarrow>
   (domError + bool) \<times> field list \<times> (string \<rightharpoonup> errorElement)" where
  "validateRequired pf lbls [] isFormValid errs = (Inr isFormValid, [], errs)"
| "validateRequired pf lbls (input # rest) isFormValid errs =
     (if required input
      then (case validateField pf lbls input errs of
              (Inl e, input', errs') \<Rightarrow> (Inl e, input' # rest, errs')
            | (Inr valid, input', errs') \<Rightarrow>
                (case validateRequired pf lbls rest (if \<not> valid then False else isFormValid) errs' of
                   (r, rest', errs'') \<Rightarrow> (r, input' # rest', errs'')))
      else (case validateRequired pf lbls rest isFormValid errs of
              (r, rest', errs'') \<Rightarrow> (r, input # rest', errs'')))"

subsection \<open>The banner and the analytics event\<close>

definition showFormMessage :: "string \<Rightarrow> string \<Rightarrow> contactForm \<Rightarrow> contactForm" where
  "showFormMessage message type s =
     (case (feedback s, successEl s, errorEl s) of
        (Some fb, Some success, Some error) \<Rightarrow>
          (let success1 = success\<lparr>msgDisplay := ''none''\<rparr>;
               error1 = error\<lparr>msgDisplay := ''none''\<rparr>;
               s1 = (if type = ''success''
                     then s\<lparr>successEl := Some (success1\<lparr>msgDisplay := ''block'',
                                                  msgP := map_option (\<lambda>p. message) (msgP success1)\<rparr>),
                            errorEl := Some error1\<rparr>
                     else s\<lparr>successEl := Some success1,
                            errorEl := Some (error1\<lparr>msgDisplay := ''block'',
                                                msgP := map_option (\<lambda>p. message) (msgP error1)\<rparr>)\<rparr>)
           in s1\<lparr>feedback := Some ''block'',
                 effects := effects s1 @ [ScrollIntoView],
                 feedbackTimeouts := feedbackTimeouts s1 @ [10000]\<rparr>)
      | _ \<Rightarrow> s)"

definition trackEvent :: "string \<Rightarrow> (string \<times> attr) list \<Rightarrow> contactForm \<Rightarrow> contactForm" where
  "trackEvent eventName properties s =
     s\<lparr>effects := effects s @
          (if gtagDefined s then [Gtag ''event'' eventName properties] else []) @
          [EventTracked eventName properties]\<rparr>"

subsection \<open>The outgoing payload\<close>

text \<open>
  \<^verbatim>\<open>new FormData(form)\<close>: the controls with a name, in document order, each with its
  value, leaving out the disabled ones, the buttons and the checkboxes and radio buttons
  that are not checked. File inputs and multiple selects are not modelled.
\<close>

definition isButtonType :: "string \<Rightarrow> bool" where
  "isButtonType ty \<longleftrightarrow> ty = ''submit'' \<or> ty = ''button'' \<or> ty = ''reset'' \<or> ty = ''image''"

definition inFormData :: "field \<Rightarrow> bool" where
  "inFormData fld \<longleftrightarrow>
     fieldName fld \<noteq> [] \<and> \<not> fieldDisabled fld \<and> \<not> isButtonType (fieldType fld) \<and>
     (if fieldType fld = ''checkbox'' \<or> fieldType fld = ''radio'' then checked fld else True)"

definition formDataEntries :: "field list \<Rightarrow> (string \<times> string) list" where
  "formDataEntries flds = map (\<lambda>fld. (fieldName fld, fieldValue fld)) (filter inFormData flds)"

text \<open>
  \<^verbatim>\<open>form.querySelector('#name, input[name="name"]')\<close> and its five siblings: the first
  control with the id, or with the tag and the name.
\<close>

definition queryField :: "string \<Rightarrow> tag \<Rightarrow> field list \<Rightarrow> field option" where
  "queryField nm tg flds = find (\<lambda>fld. fieldId fld = nm \<or> (tagName fld = tg \<and> fieldName fld = nm)) flds"

text \<open>\<^verbatim>\<open>if (field?.value) templateParams[key] = field.value\<close>\<close>

definition captureField :: "string \<Rightarrow> field option \<Rightarrow> (string \<rightharpoonup> string) \<Rightarrow> (string \<rightharpoonup> string)" where
  "captureField key fld templateParams =
     (case fld of
        Some f \<Rightarrow> if truthy (fieldValue f) then templateParams(key \<mapsto> fieldValue f) else templateParams
      | None \<Rightarrow> templateParams)"

text \<open>\<^verbatim>\<open>templateParams[key] || fallback\<close>\<close>

definition paramOr :: "(string \<rightharpoonup> string) \<Rightarrow> string \<Rightarrow> string \<Rightarrow> string" where
  "paramOr templateParams key fallback =
     (case templateParams key of Some v \<Rightarrow> if truthy v then v else fallback | None \<Rightarrow> fallback)"

text \<open>\<^verbatim>\<open>templateParams[key] || field?.value || ''\<close>\<close>

definition finalValue :: "(string \<rightharpoonup> string) \<Rightarrow> string \<Rightarrow> field option \<Rightarrow> string" where
  "finalValue templateParams key fld =
     paramOr templateParams key
       (case fld of Some f \<Rightarrow> if truthy (fieldValue f) then fieldValue f else [] | None \<Rightarrow> [])"

definition orElse :: "string \<Rightarrow> string \<Rightarrow> string" where
  "orElse v fallback = (if truthy v then v else fallback)"

text \<open>
  The first half of the \<^verbatim>\<open>try\<close> block: \<open>templateParams\<close> takes every form-data
  entry, then the values of the six controls looked up directly, then the additional
  data.
\<close>

definition collectTemplateParams :: "contactForm \<Rightarrow> (string \<rightharpoonup> string)" where
  "collectTemplateParams s =
     (let templateParams0 = fold (\<lambda>(key, val) tp. tp(key \<mapsto> val)) (formDataEntries (formFields s)) Map.empty;
          templateParams1 =
            captureField ''message'' (queryField ''message'' Textarea (formFields s))
              (captureField ''service'' (queryField ''service'' Select (formFields s))
                (captureField ''budget'' (queryField ''budget'' Select (formFields s))
                  (captureField ''company'' (queryField ''company'' Input (formFields s))
                    (captureField ''email'' (queryField ''email'' Input (formFields s))
                      (captureField ''name'' (queryField ''name'' Input (formFields s)) templateParams0)))))
      in templateParams1(''timestamp'' \<mapsto> timestamp s,
                         ''user_agent'' \<mapsto> userAgent s,
                         ''page_url'' \<mapsto> pageUrl s))"

text \<open>The second half: the final values and the object handed to \<^verbatim>\<open>emailjs.send\<close>.\<close>

definition buildTemplateParams :: "contactForm \<Rightarrow> (string \<times> string) list" where
  "buildTemplateParams s =
     (let templateParams = collectTemplateParams s;
          finalName = finalValue templateParams ''name'' (queryField ''name'' Input (formFields s));
          finalEmail = finalValue templateParams ''email'' (queryField ''email'' Input (formFields s));
          finalCompany = finalValue templateParams ''company'' (queryField ''company'' Input (formFields s));
          finalBudget = finalValue templateParams ''budget'' (queryField ''budget'' Select (formFields s));
          finalService = finalValue templateParams ''service'' (queryField ''service'' Select (formFields s));
          finalMessage = finalValue templateParams ''message'' (queryField ''message'' Textarea (formFields s));
          timeline = paramOr templateParams ''timeline'' ''Not specified''
      in [(''message'',
             [CHR 0x0A] @ ''New Contact Form Submission:'' @ [CHR 0x0A, CHR 0x0A] @
             ''Name: '' @ finalName @ [CHR 0x0A] @
             ''Email: '' @ finalEmail @ [CHR 0x0A] @
             ''Company: '' @ finalCompany @ [CHR 0x0A] @
             ''Budget: '' @ finalBudget @ [CHR 0x0A] @
             ''Service: '' @ finalService @ [CHR 0x0A] @
             ''Timeline: '' @ timeline @ [CHR 0x0A, CHR 0x0A] @
             ''Message:'' @ [CHR 0x0A] @ finalMessage @ [CHR 0x0A, CHR 0x0A] @
             ''---'' @ [CHR 0x0A] @
             ''Submitted: '' @ timestamp s @ [CHR 0x0A] @
             ''From: '' @ pageUrl s @ [CHR 0x0A] @
             ''                ''),
          (''from_name'', orElse finalName ''Website Visitor''),
          (''from_email'', orElse finalEmail ''noreply@gabrieletupini.dev''),
          (''reply_to'', orElse finalEmail ''noreply@gabrieletupini.dev''),
          (''to_name'', ''Gabriele Tupini''),
          (''subject'', ''Contact Form: '' @ orElse finalService ''New Inquiry''),
          (''user_name'', finalName),
          (''user_email'', finalEmail),
          (''user_company'', finalCompany),
          (''user_budget'', finalBudget),
          (''user_service'', finalService),
          (''user_timeline'', timeline),
          (''user_message'', finalMessage)])"

subsection \<open>handleContactSubmission\<close>

text \<open>
  The handler is asynchronous. It runs to its end (\<open>Returned\<close>), or throws outside its
  \<^verbatim>\<open>try\<close> (\<open>Threw\<close>: an exception of \<open>validateField\<close> in the loop, or
  \<open>showLoading\<close> on a missing submit button), or is suspended at
  \<^verbatim>\<open>await emailjs.send(...)\<close> with its locals \<open>originalContent\<close> and
  \<open>finalTemplateParams\<close> (\<open>Awaiting\<close>). \<open>resumeSubmission\<close> is the rest of the handler,
  run on the state the page has when the call settles.
\<close>

record pendingSend =
  originalContent :: string
  finalTemplateParams :: "(string \<times> string) list"

datatype sendOutcome = Resolved | Rejected string

datatype submission =
    Returned contactForm
  | Threw contactForm domError
  | Awaiting contactForm pendingSend

definition serviceId :: string where "serviceId = ''service_zgf03ey''"
definition templateId :: string where "templateId = ''template_7r3r8rd''"

text \<open>The \<^verbatim>\<open>catch\<close> and the \<^verbatim>\<open>finally\<close> block.\<close>

definition sorryMessage :: string where
  "sorryMessage = ''Sorry, there was an error sending your message. Please try again or email me directly.''"

definition catchBlock :: "string \<Rightarrow> contactForm \<Rightarrow> contactForm" where
  "catchBlock error s =
     showFormMessage sorryMessage ''error''
       (s\<lparr>effects := effects s @ [ConsoleError ''Form submission failed:'' error]\<rparr>)"

definition finallyBlock :: "string \<Rightarrow> contactForm \<Rightarrow> contactForm" where
  "finallyBlock original s =
     s\<lparr>isSubmitting := False,
       submitBtn := map_option (\<lambda>btn. hideLoading (readBack (platform s)) btn original) (submitBtn s)\<rparr>"

definition formReset :: "contactForm \<Rightarrow> contactForm" where
  "formReset s = s\<lparr>formFields := map (\<lambda>fld. fld\<lparr>fieldValue := defaultValue fld\<rparr>) (formFields s)\<rparr>"

definition handleContactSubmission :: "contactForm \<Rightarrow> submission" where
  "handleContactSubmission s =
     (if isSubmitting s then Returned s
      else
        case validateRequired (platform s) (labels s) (formFields s) True (errorElements s) of
          (Inl e, flds, errs) \<Rightarrow> Threw (s\<lparr>formFields := flds, errorElements := errs\<rparr>) e
        | (Inr isFormValid, flds, errs) \<Rightarrow>
            let s1 = s\<lparr>formFields := flds, errorElements := errs\<rparr>
            in if \<not> isFormValid
               then Returned (showFormMessage ''Please correct the errors below.'' ''error'' s1)
               else
                 let s2 = s1\<lparr>isSubmitting := True\<rparr>
                 in case submitBtn s2 of
                      None \<Rightarrow> Threw s2 TypeError
                    | Some btn \<Rightarrow>
                        (case showLoading (readBack (platform s2)) btn ''Sending...'' of
                           (btn', original) \<Rightarrow>
                             let s3 = s2\<lparr>submitBtn := Some btn'\<rparr>;
                                 params = buildTemplateParams s3
                             in if \<not> emailjsDefined s3
                                then Returned (finallyBlock original (catchBlock ''ReferenceError'' s3))
                                else Awaiting
                                       (s3\<lparr>effects := effects s3 @ [EmailSend serviceId templateId params]\<rparr>)
                                       \<lparr>originalContent = original, finalTemplateParams = params\<rparr>))"

definition resumeSubmission :: "sendOutcome \<Rightarrow> pendingSend \<Rightarrow> contactForm \<Rightarrow> contactForm" where
  "resumeSubmission outcome p s =
     (case outcome of
        Resolved \<Rightarrow>
          finallyBlock (originalContent p)
            (trackEvent ''contact_form_submit''
               [(''service'', map_of (finalTemplateParams p) ''service''),
                (''budget'', map_of (finalTemplateParams p) ''budget'')]
               (formReset
                  (showFormMessage
                     (''Thank you for your message! I'' @ [CHR 0x27] @ ''ll get back to you within 24 hours.'')
                     ''success'' s)))
      | Rejected error \<Rightarrow> finallyBlock (originalContent p) (catchBlock error s))"

subsection \<open>What the claims observe\<close>

definition isEmailSend :: "effect \<Rightarrow> bool" where
  "isEmailSend e = (case e of EmailSend sid tid params \<Rightarrow> True | _ \<Rightarrow> False)"

text \<open>The page has the three elements that \<open>showFormMessage\<close> looks up.\<close>

definition bannerPresent :: "contactForm \<Rightarrow> bool" where
  "bannerPresent s \<longleftrightarrow> feedback s \<noteq> None \<and> successEl s \<noteq> None \<and> errorEl s \<noteq> None"

text \<open>
  The error banner is up with a message: the feedback container and the error box are
  displayed, the success box is not, and the error box's paragraph, if it has one,
  holds the message.
\<close>

definition errorBannerShown :: "string \<Rightarrow> contactForm \<Rightarrow> bool" where
  "errorBannerShown message s \<longleftrightarrow>
     feedback s = Some ''block'' \<and>
     (case errorEl s of
        Some e \<Rightarrow> msgDisplay e = ''block'' \<and> (msgP e = None \<or> msgP e = Some message)
      | None \<Rightarrow> False) \<and>
     (case successEl s of Some e \<Rightarrow> msgDisplay e = ''none'' | None \<Rightarrow> False)"

text \<open>What \<open>validateField\<close> leaves of a field and of its error element.\<close>

definition validatedField :: "platform \<Rightarrow> (string \<times> string) list \<Rightarrow> field \<Rightarrow> field" where
  "validatedField pf lbls fld =
     (case fieldMessage pf lbls fld of
        None \<Rightarrow> fld\<lparr>classError := False, ariaInvalid := None\<rparr>
      | Some message \<Rightarrow> fld\<lparr>classError := True, ariaInvalid := Some ''true''\<rparr>)"

definition inlineError :: "string option \<Rightarrow> errorElement \<Rightarrow> errorElement" where
  "inlineError message e =
     (case message of
        None \<Rightarrow> e\<lparr>errorText := [], classShow := False\<rparr>
      | Some m \<Rightarrow> e\<lparr>errorText := m, classShow := True\<rparr>)"

text \<open>The page as a run of the handler leaves it, however the run ends.\<close>

definition stateOf :: "submission \<Rightarrow> contactForm" where
  "stateOf r = (case r of Returned s \<Rightarrow> s | Threw s e \<Rightarrow> s | Awaiting s p \<Rightarrow> s)"

text \<open>
  A whole submission attempt: the handler runs and, when it is suspended at the send
  call, the call settles with the given outcome before anything else happens.
\<close>

definition submitAndSettle :: "sendOutcome \<Rightarrow> contactForm \<Rightarrow> contactForm" where
  "submitAndSettle outcome s =
     (case handleContactSubmission s of
        Returned s' \<Rightarrow> s'
      | Threw s' e \<Rightarrow> s'
      | Awaiting s' p \<Rightarrow> resumeSubmission outcome p s')"

section \<open>Example pages\<close>

text \<open>
  The contact form of the specification's end-to-end scenarios: name, email and message
  are required, company, budget and service are not; the page has the error elements of
  the required fields, the banner and the submit button, and the email client is
  loaded. \<open>janeForm\<close> is filled in with the scenario's values and a service and budget
  selection.
\<close>

definition textField :: "tag \<Rightarrow> string \<Rightarrow> string \<Rightarrow> bool \<Rightarrow> string \<Rightarrow> field" where
  "textField tg nm ty req v =
     \<lparr>tagName = tg, fieldId = nm, fieldName = nm, fieldType = ty, fieldValue = v,
      defaultValue = [], fieldDisabled = False, checked = False, required = req,
      minlength = None, classError = False, ariaInvalid = None\<rparr>"

text \<open>
  The platform of the example pages. The examples look up one id that holds a double
  quote, the two characters \<^verbatim>\<open>q"\<close>: the selector \<^verbatim>\<open>label[for="q""]\<close> does not
  parse and the lookup throws \<^verbatim>\<open>SyntaxError\<close>. They print no number beyond \<open>2^53\<close>,
  and the markup they assign to the submit button (its plain text, and the spinner with
  a plain text) reads back as it is.
\<close>

definition examplePlatform :: platform where
  "examplePlatform =
     \<lparr>quotedLabel = (\<lambda>v. Inl SyntaxError), doubleString = numberString, readBack = readBackP\<rparr>"

definition noError :: errorElement where
  "noError = \<lparr>errorText = [], classShow = False\<rparr>"

definition hiddenBox :: messageEl where
  "hiddenBox = \<lparr>msgDisplay = ''none'', msgP = Some []\<rparr>"

definition janeForm :: contactForm where
  "janeForm =
     \<lparr>platform = examplePlatform,
      formFields =
        [textField Input ''name'' ''text'' True ''Jane Doe'',
         textField Input ''email'' ''email'' True ''jane@example.com'',
         textField Input ''company'' ''text'' False [],
         textField Select ''budget'' ''select-one'' False ''5k-10k'',
         textField Select ''service'' ''select-one'' False ''consulting'',
         textField Textarea ''message'' ''textarea'' True ''Hello''],
      labels = [(''name'', ''Name *''), (''email'', ''Email *''), (''message'', ''Message *'')],
      errorElements = [''name-error'' \<mapsto> noError, ''email-error'' \<mapsto> noError,
                       ''message-error'' \<mapsto> noError],
      feedback = Some ''none'',
      successEl = Some hiddenBox,
      errorEl = Some hiddenBox,
      feedbackTimeouts = [],
      submitBtn = Some \<lparr>innerHTML = ''Send Message'', disabled = False\<rparr>,
      isSubmitting = False,
      emailjsDefined = True,
      gtagDefined = True,
      timestamp = ''2024-01-01T00:00:00.000Z'',
      userAgent = ''Mozilla/5.0'',
      pageUrl = ''https://gabrieletupini.dev/'',
      effects = []\<rparr>"




text \<open>The filled-in form on a page without the banner elements.\<close>

definition noBannerForm :: contactForm where
  "noBannerForm = janeForm\<lparr>feedback := None, successEl := None, errorEl := None\<rparr>"



text \<open>An element whose content is a paragraph inside a paragraph, as a script can build it.\<close>

definition nestedParagraphs :: element where
  "nestedParagraphs = \<lparr>innerHTML = ''<p><p></p></p>'', disabled = False\<rparr>"

definition sendButton :: element where
  "sendButton = \<lparr>innerHTML = ''Send Message'', disabled = False\<rparr>"

section \<open>Properties of Utils\<close>

lemma natString_digit: "n < 10 \<Longrightarrow> natString n = [char_of (48 + n)]"
  by (simp add: natString.simps)

lemma parseInt_5: "parseInt ''5'' = Some 5"
  by (simp add: parseInt_def trimStart_def isWhiteSpace_def digitValue_def digitsValue_def)

lemma readBackP_examples:
  "readBackP ''Send Message'' = ''Send Message''"
  "readBackP ''<p><p></p></p>'' = ''<p></p><p></p><p></p>''"
  by (simp_all add: readBackP_def pTokens_def)

lemma readBackP_loadingMarkup: "readBackP (loadingMarkup text) = loadingMarkup text"
  by (simp add: readBackP_def pTokens_def loadingMarkup_def)

text \<open>
  C10 as stated fails for an element whose markup does not read back as itself. A
  paragraph inside a paragraph serialises as \<^verbatim>\<open><p><p></p></p>\<close>; \<open>showLoading\<close> returns
  that string, and when \<open>hideLoading\<close> assigns it back the parser builds three sibling
  paragraphs, so \<open>innerHTML\<close> reads \<^verbatim>\<open><p></p><p></p><p></p>\<close> and not the value it had
  before \<open>showLoading\<close>.
\<close>

theorem showLoading_hideLoading_nested_counterexample:
  "snd (showLoading readBackP nestedParagraphs ''Loading...'') = ''<p><p></p></p>'' \<and>
   innerHTML (hideLoading readBackP (fst (showLoading readBackP nestedParagraphs ''Loading...''))
                (snd (showLoading readBackP nestedParagraphs ''Loading...'')))
     = ''<p></p><p></p><p></p>'' \<and>
   innerHTML (hideLoading readBackP (fst (showLoading readBackP nestedParagraphs ''Loading...''))
                (snd (showLoading readBackP nestedParagraphs ''Loading...'')))
     \<noteq> innerHTML nestedParagraphs"
  by (simp add: showLoading_def hideLoading_def nestedParagraphs_def readBackP_examples)

text \<open>
  C10, amended: for every element and every read-back \<open>r\<close> of the browser, \<open>showLoading\<close> returns
  the element's prior innerHTML and leaves the element disabled with the spinner markup
  assigned; \<open>hideLoading\<close> applied to the returned value assigns it back and sets
  disabled to false, so that innerHTML reads as the browser reads that markup back: it is
  exactly the value from before \<open>showLoading\<close> whenever that value reads back as
  itself.
\<close>

theorem showLoading_hideLoading_roundtrip:
  "snd (showLoading r el text) = innerHTML el \<and>
   disabled (fst (showLoading r el text)) = True \<and>
   innerHTML (fst (showLoading r el text)) = r (loadingMarkup text) \<and>
   innerHTML (hideLoading r (fst (showLoading r el text)) (snd (showLoading r el text)))
     = r (innerHTML el) \<and>
   disabled (hideLoading r (fst (showLoading r el text)) (snd (showLoading r el text)))
     = False \<and>
   (r (innerHTML el) = innerHTML el \<longrightarrow>
      innerHTML (hideLoading r (fst (showLoading r el text)) (snd (showLoading r el text)))
        = innerHTML el)"
  by (simp add: showLoading_def hideLoading_def)

theorem showLoading_hideLoading_roundtrip_witness:
  "readBackP (innerHTML sendButton) = innerHTML sendButton \<and>
   snd (showLoading readBackP sendButton ''Sending...'') = ''Send Message'' \<and>
   fst (showLoading readBackP sendButton ''Sending...'') =
     \<lparr>innerHTML = loadingMarkup ''Sending...'', disabled = True\<rparr> \<and>
   hideLoading readBackP (fst (showLoading readBackP sendButton ''Sending...''))
     (snd (showLoading readBackP sendButton ''Sending...'')) = sendButton"
  using showLoading_hideLoading_roundtrip [of readBackP sendButton "''Sending...''"]
  by (simp add: showLoading_def hideLoading_def sendButton_def readBackP_examples readBackP_loadingMarkup)

subsection \<open>The counter animation\<close>

lemma tick_cleared: "\<not> timerSet c \<Longrightarrow> tick c = c"
  by (simp add: tick_def)

lemma ticks_cleared: "\<not> timerSet c \<Longrightarrow> ticks n c = c"
  by (induction n) (simp_all add: tick_cleared)

lemma tick_zero_increment:
  "increment c = 0 \<Longrightarrow> timerSet c \<Longrightarrow>
   increment (tick c) = 0 \<and> timerSet (tick c) \<and> current (tick c) = current c \<and> target (tick c) = target c"
  by (simp add: tick_def Let_def)

lemma ticks_zero_increment:
  "increment c = 0 \<Longrightarrow> timerSet c \<Longrightarrow> timerSet (ticks n c) \<and> current (ticks n c) = current c"
proof (induction n arbitrary: c)
  case 0
  then show ?case by simp
next
  case (Suc n)
  from tick_zero_increment [OF Suc.prems]
  have *: "increment (tick c) = 0" "timerSet (tick c)" "current (tick c) = current c" by simp_all
  from Suc.IH [OF *(1) *(2)] *(3) show ?case by simp
qed

lemma tick_reached_up:
  assumes "timerSet c" "increment c > 0" "of_int (target c) \<le> current c + increment c"
  shows "\<not> timerSet (tick c) \<and> current (tick c) = of_int (target c) \<and>
         textContent (tick c) = numberString (target c)"
  using assms by (simp add: tick_def Let_def)

lemma tick_not_reached_up:
  assumes "timerSet c" "increment c > 0" "\<not> of_int (target c) \<le> current c + increment c"
  shows "timerSet (tick c) \<and> current (tick c) = current c + increment c \<and>
         increment (tick c) = increment c \<and> target (tick c) = target c"
  using assms by (simp add: tick_def Let_def)

lemma ticks_up:
  assumes "timerSet c" "increment c > 0"
    and "of_int (target c) - current c \<le> of_nat (Suc m) * increment c"
  shows "\<not> timerSet (ticks (Suc m) c) \<and> current (ticks (Suc m) c) = of_int (target c) \<and>
         textContent (ticks (Suc m) c) = numberString (target c)"
  using assms
proof (induction m arbitrary: c)
  case 0
  then have "of_int (target c) \<le> current c + increment c" by simp
  from tick_reached_up [OF "0.prems"(1,2) this] show ?case by simp
next
  case (Suc m)
  show ?case
  proof (cases "of_int (target c) \<le> current c + increment c")
    case True
    from tick_reached_up [OF Suc.prems(1,2) True]
    have *: "\<not> timerSet (tick c)" "current (tick c) = of_int (target c)"
      "textContent (tick c) = numberString (target c)" by simp_all
    have "ticks (Suc (Suc m)) c = ticks (Suc m) (tick c)" by simp
    also have "\<dots> = tick c" using *(1) by (rule ticks_cleared)
    finally show ?thesis using * by simp
  next
    case False
    from tick_not_reached_up [OF Suc.prems(1,2) False]
    have *: "timerSet (tick c)" "current (tick c) = current c + increment c"
      "increment (tick c) = increment c" "target (tick c) = target c" by simp_all
    have "of_int (target (tick c)) - current (tick c) \<le> of_nat (Suc m) * increment (tick c)"
      using Suc.prems(3) * by (simp add: algebra_simps)
    from Suc.IH [OF *(1) _ this] Suc.prems(2) * show ?thesis by simp
  qed
qed


lemma tick_reached_down:
  assumes "timerSet c" "increment c < 0" "current c + increment c \<le> of_int (target c)"
  shows "\<not> timerSet (tick c) \<and> current (tick c) = of_int (target c) \<and>
         textContent (tick c) = numberString (target c)"
  using assms by (simp add: tick_def Let_def)

lemma tick_not_reached_down:
  assumes "timerSet c" "increment c < 0" "\<not> current c + increment c \<le> of_int (target c)"
  shows "timerSet (tick c) \<and> current (tick c) = current c + increment c \<and>
         increment (tick c) = increment c \<and> target (tick c) = target c"
  using assms by (simp add: tick_def Let_def)

lemma ticks_down:
  assumes "timerSet c" "increment c < 0"
    and "of_nat (Suc m) * increment c \<le> of_int (target c) - current c"
  shows "\<not> timerSet (ticks (Suc m) c) \<and> current (ticks (Suc m) c) = of_int (target c) \<and>
         textContent (ticks (Suc m) c) = numberString (target c)"
  using assms
proof (induction m arbitrary: c)
  case 0
  then have "current c + increment c \<le> of_int (target c)" by simp
  from tick_reached_down [OF "0.prems"(1,2) this] show ?case by simp
next
  case (Suc m)
  show ?case
  proof (cases "current c + increment c \<le> of_int (target c)")
    case True
    from tick_reached_down [OF Suc.prems(1,2) True]
    have *: "\<not> timerSet (tick c)" "current (tick c) = of_int (target c)"
      "textContent (tick c) = numberString (target c)" by simp_all
    have "ticks (Suc (Suc m)) c = ticks (Suc m) (tick c)" by simp
    also have "\<dots> = tick c" using *(1) by (rule ticks_cleared)
    finally show ?thesis using * by simp
  next
    case False
    from tick_not_reached_down [OF Suc.prems(1,2) False]
    have *: "timerSet (tick c)" "current (tick c) = current c + increment c"
      "increment (tick c) = increment c" "target (tick c) = target c" by simp_all
    have "of_nat (Suc m) * increment (tick c) \<le> of_int (target (tick c)) - current (tick c)"
      using Suc.prems(3) * by (simp add: algebra_simps)
    from Suc.IH [OF *(1) _ this] Suc.prems(2) * show ?thesis by simp
  qed
qed

text \<open>
  From a start different from the target, and a positive duration, the animation does
  end: after finitely many runs the timer is cleared and the text is the target.
\<close>

lemma animateCounter_reaches_target:
  assumes dur: "0 < duration"
    and ne: "(case parseInt text of None \<Rightarrow> 0 | Some n \<Rightarrow> n) \<noteq> tgt"
  shows "\<exists>c n. animateCounter text tgt duration = Some c \<and> \<not> timerSet (ticks n c) \<and>
           current (ticks n c) = of_int tgt \<and> textContent (ticks n c) = numberString tgt"
proof -
  define start where "start = (case parseInt text of None \<Rightarrow> 0 | Some n \<Rightarrow> n)"
  define inc :: rat where "inc = (of_int tgt - of_int start) / (duration / 16)"
  define c where "c = \<lparr>textContent = text, current = of_int start, increment = inc,
                        target = tgt, timerSet = True\<rparr>"
  have a: "animateCounter text tgt duration = Some c"
    using dur by (simp add: animateCounter_def Let_def c_def inc_def start_def)
  obtain k :: nat where k: "duration / 16 < of_nat k"
    using reals_Archimedean2 by blast
  have kpos: "0 < k" using k dur by (cases k) simp_all
  then obtain m where m: "k = Suc m" by (cases k) simp_all
  have step: "of_nat (Suc m) * inc = (of_int tgt - of_int start) * (of_nat k / (duration / 16))"
    by (simp add: inc_def m algebra_simps)
  have big: "1 \<le> of_nat k / (duration / 16)"
    using k dur by (simp add: field_simps)
  show ?thesis
  proof (cases "start < tgt")
    case True
    then have pos: "0 < (of_int tgt - of_int start :: rat)" by simp
    then have incpos: "0 < inc" using dur by (simp add: inc_def)
    have "(of_int tgt - of_int start :: rat) * 1 \<le> (of_int tgt - of_int start) * (of_nat k / (duration / 16))"
      using pos big by (intro mult_left_mono) simp_all
    then have "of_int (target c) - current c \<le> of_nat (Suc m) * increment c"
      by (simp add: step c_def del: of_nat_Suc)
    from ticks_up [OF _ _ this] incpos
    have "\<not> timerSet (ticks (Suc m) c) \<and> current (ticks (Suc m) c) = of_int tgt \<and>
          textContent (ticks (Suc m) c) = numberString tgt"
      by (simp add: c_def)
    with a show ?thesis by blast
  next
    case False
    with ne have lt: "tgt < start" by (simp add: start_def)
    then have neg: "(of_int tgt - of_int start :: rat) < 0" by simp
    then have incneg: "inc < 0" using dur by (simp add: inc_def field_simps)
    have "(of_int tgt - of_int start :: rat) * (of_nat k / (duration / 16)) \<le> (of_int tgt - of_int start) * 1"
      using neg big by (intro mult_left_mono_neg) simp_all
    then have "of_nat (Suc m) * increment c \<le> of_int (target c) - current c"
      by (simp add: step c_def del: of_nat_Suc)
    from ticks_down [OF _ _ this] incneg
    have "\<not> timerSet (ticks (Suc m) c) \<and> current (ticks (Suc m) c) = of_int tgt \<and>
          textContent (ticks (Suc m) c) = numberString tgt"
      by (simp add: c_def)
    with a show ?thesis by blast
  qed
qed

text \<open>
  C2: the counter animation is claimed to reach the target and clear its timer from every
  starting value, the start equal to the target included. With the displayed value 5 and
  the target 5 the increment is 0, neither comparison of the callback holds, and the
  interval timer is never cleared: it stays set after any number of runs of the
  callback, with \<open>current\<close> at the target throughout.
\<close>

theorem animateCounter_equal_start_never_clears:
  "\<exists>c. animateCounter ''5'' 5 2000 = Some c \<and> current c = of_int (target c) \<and>
       (\<forall>n. timerSet (ticks n c) \<and> current (ticks n c) = 5)"
proof -
  let ?c = "\<lparr>textContent = ''5'', current = 5, increment = 0, target = 5, timerSet = True\<rparr>"
  have a: "animateCounter ''5'' 5 2000 = Some ?c"
    by (simp add: animateCounter_def parseInt_5)
  have "\<forall>n. timerSet (ticks n ?c) \<and> current (ticks n ?c) = 5"
    using ticks_zero_increment [of ?c] by simp
  with a show ?thesis by simp
qed


section \<open>Properties of the SkillsManager and the ProjectsManager\<close>

text \<open>
  C7: selecting the value that is already current is a no-op for \<open>switchCategory\<close> and
  for \<open>filterProjects\<close>: the whole state (classes, pending timeouts, current
  selection) is returned as it was; hence switching twice in a row to the same value
  equals switching once.
\<close>

theorem same_value_noop:
  "switchCategory (currentCategory s) s = s \<and>
   filterProjects (currentFilter p) p = p \<and>
   switchCategory c (switchCategory c s) = switchCategory c s \<and>
   filterProjects f (filterProjects f p) = filterProjects f p"
  by (simp add: switchCategory_def filterProjects_def)

lemma includesStr_iff: "includesStr hay needle \<longleftrightarrow> (\<exists>ps ss. hay = ps @ needle @ ss)"
proof (induction hay)
  case Nil
  then show ?case by auto
next
  case (Cons c cs)
  show ?case
  proof
    assume "includesStr (c # cs) needle"
    then consider "take (length needle) (c # cs) = needle" | "includesStr cs needle" by auto
    then show "\<exists>ps ss. c # cs = ps @ needle @ ss"
    proof cases
      case 1
      then have "c # cs = [] @ needle @ drop (length needle) (c # cs)"
        by (metis append_Nil append_take_drop_id)
      then show ?thesis by blast
    next
      case 2
      with Cons.IH obtain ps ss where "cs = ps @ needle @ ss" by blast
      then have "c # cs = (c # ps) @ needle @ ss" by simp
      then show ?thesis by blast
    qed
  next
    assume "\<exists>ps ss. c # cs = ps @ needle @ ss"
    then obtain ps ss where e: "c # cs = ps @ needle @ ss" by blast
    show "includesStr (c # cs) needle"
    proof (cases ps)
      case Nil
      with e have "take (length needle) (c # cs) = needle" by simp
      then show ?thesis by simp
    next
      case (Cons p ps')
      with e have "cs = ps' @ needle @ ss" by simp
      with Cons.IH have "includesStr cs needle" by blast
      then show ?thesis by simp
    qed
  qed
qed

lemma elapseCard_filterCard_shown:
  assumes "pending c = []" "shouldShow f c" "50 \<le> ms"
  shows "elapseCard ms (filterCard f c) =
         c\<lparr>transition := ''all 0.3s ease'', display := ''block'', opacity := ''1'',
           transform := ''scale(1)'', pending := []\<rparr>"
  using assms by (simp add: elapseCard_def filterCard_def runCardTimeout_def)

lemma elapseCard_filterCard_hidden:
  assumes "pending c = []" "\<not> shouldShow f c" "300 \<le> ms"
  shows "elapseCard ms (filterCard f c) =
         c\<lparr>transition := ''all 0.3s ease'', opacity := ''0'', transform := ''scale(0.8)'',
           display := ''none'', pending := []\<rparr>"
  using assms by (simp add: elapseCard_def filterCard_def runCardTimeout_def)

lemma elapseCard_filterCard_hiding:
  assumes "pending c = []" "\<not> shouldShow f c" "ms < 300"
  shows "display (elapseCard ms (filterCard f c)) = display c \<and>
         opacity (elapseCard ms (filterCard f c)) = ''0''"
  using assms by (simp add: elapseCard_def filterCard_def runCardTimeout_def)

lemma shouldShow_Some:
  "shouldShow (Some f) c \<longleftrightarrow> f = ''all'' \<or> (\<exists>ps ss. categoryTag c = ps @ f @ ss)"
  by (simp add: shouldShow_def attrString_def includesStr_iff)

text \<open>
  When no timeout of an earlier filter change is pending on the cards, a change to a
  different filter does what it should: a card that matches is laid out at once and
  opaque from 50 ms on; a card that does not match keeps its place in the layout during
  the 300 ms of the transition and has \<open>display\<close> none from then on.
\<close>

lemma filterProjects_when_settled:
  assumes st: "settled s" and ne: "Some f \<noteq> currentFilter s" and i: "i < length (projectCards s)"
  shows "(300 \<le> ms \<longrightarrow>
            (visible (projectCards (elapse ms (filterProjects (Some f) s)) ! i) \<longleftrightarrow>
               f = ''all'' \<or> (\<exists>ps ss. categoryTag (projectCards s ! i) = ps @ f @ ss)) \<and>
            (display (projectCards (elapse ms (filterProjects (Some f) s)) ! i) = ''none'' \<longleftrightarrow>
               \<not> (f = ''all'' \<or> (\<exists>ps ss. categoryTag (projectCards s ! i) = ps @ f @ ss)))) \<and>
         (ms < 300 \<longrightarrow> \<not> (f = ''all'' \<or> (\<exists>ps ss. categoryTag (projectCards s ! i) = ps @ f @ ss)) \<longrightarrow>
            display (projectCards (elapse ms (filterProjects (Some f) s)) ! i) = display (projectCards s ! i)) \<and>
         currentFilter (elapse ms (filterProjects (Some f) s)) = Some f \<and>
         length (projectCards (elapse ms (filterProjects (Some f) s))) = length (projectCards s)"
proof -
  let ?c = "projectCards s ! i"
  from st i have p: "pending ?c = []" by (simp add: settled_def list_all_length)
  have c': "projectCards (elapse ms (filterProjects (Some f) s)) ! i = elapseCard ms (filterCard (Some f) ?c)"
    using ne i by (simp add: elapse_def filterProjects_def)
  have cf: "currentFilter (elapse ms (filterProjects (Some f) s)) = Some f"
    using ne by (simp add: elapse_def filterProjects_def)
  have len: "length (projectCards (elapse ms (filterProjects (Some f) s))) = length (projectCards s)"
    by (simp add: elapse_def filterProjects_def)
  show ?thesis
  proof (cases "shouldShow (Some f) ?c")
    case True
    have "300 \<le> ms \<longrightarrow> elapseCard ms (filterCard (Some f) ?c) =
         ?c\<lparr>transition := ''all 0.3s ease'', display := ''block'', opacity := ''1'',
           transform := ''scale(1)'', pending := []\<rparr>"
      using p True by (auto intro!: elapseCard_filterCard_shown)
    with c' True cf len show ?thesis
      by (auto simp: visible_def shouldShow_Some)
  next
    case False
    have a: "300 \<le> ms \<longrightarrow> elapseCard ms (filterCard (Some f) ?c) =
         ?c\<lparr>transition := ''all 0.3s ease'', opacity := ''0'', transform := ''scale(0.8)'',
           display := ''none'', pending := []\<rparr>"
      using p False by (auto intro!: elapseCard_filterCard_hidden)
    have b: "ms < 300 \<longrightarrow> display (elapseCard ms (filterCard (Some f) ?c)) = display ?c"
      using p False elapseCard_filterCard_hiding [of ?c "Some f" ms] by simp
    from a b c' False cf len show ?thesis
      by (auto simp: visible_def shouldShow_Some)
  qed
qed

lemma filterProjects_when_settled_example:
  "visible (projectCards (elapse 300 (filterProjects (Some ''web'') onePage)) ! 0) \<and>
   \<not> visible (projectCards (elapse 300 (filterProjects (Some ''mobile'') onePage)) ! 0) \<and>
   display (projectCards (elapse 299 (filterProjects (Some ''mobile'') onePage)) ! 0) = ''block''"
  using filterProjects_when_settled [of onePage "''web''" 0 300]
    filterProjects_when_settled [of onePage "''mobile''" 0 300]
    filterProjects_when_settled [of onePage "''mobile''" 0 299]
  by (simp add: onePage_def webCard_def settled_def categoryTag_def append_eq_Cons_conv Cons_eq_append_conv)

text \<open>
  C6: after \<open>filterProjects f\<close> with \<open>f\<close> different from the current filter a card
  should be visible exactly when it matches. The code breaks this when the filter
  changes again before the 300 ms of the last change are over, because the timeout that
  hides a card is never cancelled. On a page whose one card is tagged web and showing
  all projects: the filter mobile fades the card out and sets its 300 ms timeout; 100 ms
  later the filter all, different from the current filter and matching the card, lays
  the card out again; 200 ms after that the timeout of the first change fires and sets
  \<open>display\<close> to none. With the filter all current and no timeout left, the matching
  card is not visible, and it stays so.
\<close>

theorem filterProjects_rapid_switch_hides_match:
  "Some ''all'' \<noteq> currentFilter (elapse 100 (filterProjects (Some ''mobile'') onePage)) \<and>
   shouldShow (Some ''all'') (projectCards (elapse 100 (filterProjects (Some ''mobile'') onePage)) ! 0) \<and>
   elapse 300 (filterProjects (Some ''all'') (elapse 100 (filterProjects (Some ''mobile'') onePage))) =
     \<lparr>filterBtns = [],
      projectCards = [\<lparr>cardCategory = Some ''web'', display = ''none'', opacity = ''1'',
                       transform = ''scale(1)'', transition = ''all 0.3s ease'', pending = []\<rparr>],
      currentFilter = Some ''all''\<rparr> \<and>
   \<not> visible (projectCards (elapse 300 (filterProjects (Some ''all'')
        (elapse 100 (filterProjects (Some ''mobile'') onePage)))) ! 0) \<and>
   (\<forall>ms. \<not> visible (projectCards (elapse ms (elapse 300 (filterProjects (Some ''all'')
        (elapse 100 (filterProjects (Some ''mobile'') onePage))))) ! 0))"
  by (simp add: onePage_def webCard_def filterProjects_def elapse_def elapseCard_def filterCard_def
      shouldShow_def categoryTag_def attrString_def runCardTimeout_def visible_def)

section \<open>Properties of the AnimationManager\<close>

lemma reveals_append:
  "reveals n (s\<lparr>timeouts := timeouts s @ ts\<rparr>) =
   reveals n s + length (filter (\<lambda>(d, a). case a of Reveal m t \<Rightarrow> m = n | SetWidth m w \<Rightarrow> False) ts)"
  by (simp add: reveals_def)

lemma scrollAnimationEntry_inv: "revealedOnce s \<Longrightarrow> revealedOnce (scrollAnimationEntry doc e s)"
  by (auto simp: revealedOnce_def scrollAnimationEntry_def animateElement_def Let_def reveals_def)

lemma skillBarEntry_inv: "revealedOnce s \<Longrightarrow> revealedOnce (skillBarEntry doc e s)"
  by (auto simp: revealedOnce_def skillBarEntry_def reveals_def)

lemma scrollAnimationCallback_inv: "revealedOnce s \<Longrightarrow> revealedOnce (scrollAnimationCallback doc es s)"
  unfolding scrollAnimationCallback_def
  by (induction es arbitrary: s) (simp_all add: scrollAnimationEntry_inv)

lemma skillBarCallback_inv: "revealedOnce s \<Longrightarrow> revealedOnce (skillBarCallback doc es s)"
  unfolding skillBarCallback_def
  by (induction es arbitrary: s) (simp_all add: skillBarEntry_inv)

lemma observe_inv: "revealedOnce s \<Longrightarrow> revealedOnce (observe doc ev s)"
  by (cases ev) (simp_all add: scrollAnimationCallback_inv skillBarCallback_inv)

lemma observe_all_inv: "revealedOnce s \<Longrightarrow> revealedOnce (fold (observe doc) evs s)"
  by (induction evs arbitrary: s) (simp_all add: observe_inv)

lemma new_inv: "revealedOnce newAnimationManager"
  by (simp add: revealedOnce_def newAnimationManager_def reveals_def)

lemma scrollAnimationEntry_member:
  "n \<in> animatedElements s \<Longrightarrow>
   n \<in> animatedElements (scrollAnimationEntry doc e s) \<and>
   reveals n (scrollAnimationEntry doc e s) = reveals n s"
  by (auto simp: scrollAnimationEntry_def animateElement_def Let_def reveals_def)

lemma scrollAnimationCallback_member:
  "n \<in> animatedElements s \<Longrightarrow>
   n \<in> animatedElements (scrollAnimationCallback doc es s) \<and>
   reveals n (scrollAnimationCallback doc es s) = reveals n s"
  unfolding scrollAnimationCallback_def
proof (induction es arbitrary: s)
  case Nil
  then show ?case by simp
next
  case (Cons e es)
  from scrollAnimationEntry_member [OF Cons.prems, of doc e]
  have m: "n \<in> animatedElements (scrollAnimationEntry doc e s)"
    and r: "reveals n (scrollAnimationEntry doc e s) = reveals n s" by simp_all
  from Cons.IH [OF m] r show ?case by simp
qed

text \<open>
  C8: an element's reveal is triggered at most once per page load. After any sequence of
  observer callbacks from the constructor's state, each with any entries, the reveal of
  a node has been triggered at most once; and in a state that has the node in
  \<open>animatedElements\<close>, a further callback of the scroll observer triggers no reveal
  of it, whatever its entries.
\<close>

theorem reveal_at_most_once:
  "reveals n (fold (observe doc) events newAnimationManager) \<le> 1 \<and>
   reveals n (scrollAnimationCallback doc entries (s\<lparr>animatedElements := insert n (animatedElements s)\<rparr>))
     = reveals n s"
proof -
  have "revealedOnce (fold (observe doc) events newAnimationManager)"
    using new_inv by (rule observe_all_inv)
  then have a: "reveals n (fold (observe doc) events newAnimationManager) \<le> 1"
    by (simp add: revealedOnce_def)
  have "reveals n (scrollAnimationCallback doc entries (s\<lparr>animatedElements := insert n (animatedElements s)\<rparr>))
     = reveals n (s\<lparr>animatedElements := insert n (animatedElements s)\<rparr>)"
    using scrollAnimationCallback_member [of n "s\<lparr>animatedElements := insert n (animatedElements s)\<rparr>"]
    by simp
  then have b: "reveals n (scrollAnimationCallback doc entries (s\<lparr>animatedElements := insert n (animatedElements s)\<rparr>))
     = reveals n s" by (simp add: reveals_def)
  from a b show ?thesis by simp
qed

lemma reenter_twice:
  "reveals 1 (fold (observe doc)
      [ScrollAnimations [(1, True)], ScrollAnimations [(1, False)], ScrollAnimations [(1, True), (1, True)]]
      newAnimationManager) = 1"
  by (simp add: scrollAnimationCallback_def scrollAnimationEntry_def animateElement_def
      newAnimationManager_def reveals_def)

section \<open>Properties of the ContactFormManager\<close>

subsection \<open>The email pattern\<close>

lemma regexTest_Nil: "regexTest [] s \<longleftrightarrow> s = []"
  by (cases s) simp_all

lemma regexTest_Chr: "regexTest (Chr c # items) s \<longleftrightarrow> (\<exists>b. s = c # b \<and> regexTest items b)"
  by (cases s) auto

lemma regexTest_Plus:
  "regexTest (NotSpaceAtPlus # items) s \<longleftrightarrow>
     (\<exists>a b. s = a @ b \<and> a \<noteq> [] \<and> list_all notSpaceAt a \<and> regexTest items b)"
proof (induction s)
  case Nil
  then show ?case by simp
next
  case (Cons x xs)
  show ?case
  proof
    assume "regexTest (NotSpaceAtPlus # items) (x # xs)"
    then have x: "notSpaceAt x" and d: "regexTest items xs \<or> regexTest (NotSpaceAtPlus # items) xs"
      by simp_all
    from d show "\<exists>a b. x # xs = a @ b \<and> a \<noteq> [] \<and> list_all notSpaceAt a \<and> regexTest items b"
    proof
      assume "regexTest items xs"
      with x have "x # xs = [x] @ xs \<and> [x] \<noteq> [] \<and> list_all notSpaceAt [x] \<and> regexTest items xs"
        by simp
      then show ?thesis by blast
    next
      assume "regexTest (NotSpaceAtPlus # items) xs"
      with Cons.IH obtain a b where "xs = a @ b" "a \<noteq> []" "list_all notSpaceAt a" "regexTest items b"
        by blast
      with x have "x # xs = (x # a) @ b \<and> x # a \<noteq> [] \<and> list_all notSpaceAt (x # a) \<and> regexTest items b"
        by simp
      then show ?thesis by blast
    qed
  next
    assume "\<exists>a b. x # xs = a @ b \<and> a \<noteq> [] \<and> list_all notSpaceAt a \<and> regexTest items b"
    then obtain a b where e: "x # xs = a @ b" and ne: "a \<noteq> []" and cl: "list_all notSpaceAt a"
      and r: "regexTest items b" by blast
    from ne obtain y ys where a: "a = y # ys" by (cases a) simp_all
    with e have xy: "x = y" and xs: "xs = ys @ b" by simp_all
    from cl a xy have nx: "notSpaceAt x" and cys: "list_all notSpaceAt ys" by simp_all
    show "regexTest (NotSpaceAtPlus # items) (x # xs)"
    proof (cases ys)
      case Nil
      with xs r nx show ?thesis by simp
    next
      case (Cons z zs)
      with xs cys r have "\<exists>a b. xs = a @ b \<and> a \<noteq> [] \<and> list_all notSpaceAt a \<and> regexTest items b"
        by blast
      with Cons.IH have "regexTest (NotSpaceAtPlus # items) xs" by blast
      with nx show ?thesis by simp
    qed
  qed
qed

lemma isValidEmail_iff:
  "isValidEmail email \<longleftrightarrow>
     (\<exists>local domain tld. email = local @ ''@'' @ domain @ ''.'' @ tld \<and>
        local \<noteq> [] \<and> domain \<noteq> [] \<and> tld \<noteq> [] \<and>
        list_all notSpaceAt local \<and> list_all notSpaceAt domain \<and> list_all notSpaceAt tld)"
  unfolding isValidEmail_def emailRegex_def
  by (simp add: regexTest_Plus regexTest_Chr regexTest_Nil) blast

lemma isValidEmail_examples: "isValidEmail ''jane@example.com''" "\<not> isValidEmail ''not-an-email''"
  by (simp_all add: isValidEmail_def emailRegex_def notSpaceAt_def isWhiteSpace_def)

subsection \<open>validateField\<close>

lemma getFieldLabel_plain:
  "plainId (fieldId fld) \<Longrightarrow>
   getFieldLabel pf lbls fld =
     Inr (case map_of lbls (fieldId fld) of
            Some txt \<Rightarrow> trim (removeFirstStar txt)
          | None \<Rightarrow> fieldName fld)"
  by (simp add: getFieldLabel_def queryLabel_def split: option.splits)

lemma labelReads_plain: "plainId (fieldId fld) \<Longrightarrow> labelReads pf lbls fld"
  by (simp add: labelReads_def getFieldLabel_plain)

lemma printNumber_exact: "\<bar>n\<bar> \<le> 2 ^ 53 \<Longrightarrow> printNumber pf n = numberString n"
  by (simp add: printNumber_def)

lemma validateField_reads:
  assumes "getFieldLabel pf lbls fld = Inr lbl"
  shows "validateField pf lbls fld errs =
     (Inr (ruleMessage lbl (printNumber pf) fld = None),
      (case ruleMessage lbl (printNumber pf) fld of
         None \<Rightarrow> fld\<lparr>classError := False, ariaInvalid := None\<rparr>
       | Some message \<Rightarrow> fld\<lparr>classError := True, ariaInvalid := Some ''true''\<rparr>),
      case errs (errorId fld) of
        None \<Rightarrow> errs
      | Some e \<Rightarrow> errs(errorId fld \<mapsto> inlineError (ruleMessage lbl (printNumber pf) fld) e))"
  using assms
  by (auto simp: validateField_def ruleMessage_def inlineError_def
      clearFieldError_def showFieldError_def errorId_def truthy_def attrString_def Let_def
      split: option.splits)

lemma validateField_unfold:
  assumes "labelReads pf lbls fld"
  shows "validateField pf lbls fld errs =
     (Inr (fieldMessage pf lbls fld = None), validatedField pf lbls fld,
      case errs (errorId fld) of
        None \<Rightarrow> errs
      | Some e \<Rightarrow> errs(errorId fld \<mapsto> inlineError (fieldMessage pf lbls fld) e))"
proof -
  from assms obtain lbl where l: "getFieldLabel pf lbls fld = Inr lbl"
    by (auto simp: labelReads_def split: sum.splits)
  then have lt: "labelText pf lbls fld = lbl" by (simp add: labelText_def)
  show ?thesis unfolding fieldMessage_def validatedField_def lt
    by (rule validateField_reads [OF l])
qed


subsection \<open>The validation loop and the banner\<close>


lemma validateRequired_Cons:
  assumes "required g \<longrightarrow> labelReads pf lbls g"
  shows "validateRequired pf lbls (g # flds) ok errs =
     (let r = (if required g
               then validateRequired pf lbls flds (if fieldMessage pf lbls g \<noteq> None then False else ok)
                      (case errs (errorId g) of None \<Rightarrow> errs
                       | Some e \<Rightarrow> errs(errorId g \<mapsto> inlineError (fieldMessage pf lbls g) e))
               else validateRequired pf lbls flds ok errs)
      in (fst r, (if required g then validatedField pf lbls g else g) # fst (snd r), snd (snd r)))"
  using assms by (simp add: validateField_unfold Let_def split: prod.splits)


lemma validateRequired_valid:
  assumes "\<forall>f \<in> set flds. required f \<longrightarrow> labelReads pf lbls f"
  shows "fst (validateRequired pf lbls flds ok errs) =
           Inr (ok \<and> (\<forall>f \<in> set flds. required f \<longrightarrow> fieldMessage pf lbls f = None))"
  using assms
  by (induction flds arbitrary: ok errs)
     (auto simp: validateRequired_Cons Let_def simp del: validateRequired.simps(2))

lemma validateRequired_fields:
  assumes "\<forall>f \<in> set flds. required f \<longrightarrow> labelReads pf lbls f"
  shows "fst (snd (validateRequired pf lbls flds ok errs)) =
           map (\<lambda>f. if required f then validatedField pf lbls f else f) flds"
  using assms
  by (induction flds arbitrary: ok errs)
     (simp_all add: validateRequired_Cons Let_def del: validateRequired.simps(2))



lemma showFormMessage_keeps:
  "isSubmitting (showFormMessage m t s) = isSubmitting s"
  "submitBtn (showFormMessage m t s) = submitBtn s"
  "formFields (showFormMessage m t s) = formFields s"
  "errorElements (showFormMessage m t s) = errorElements s"
  "platform (showFormMessage m t s) = platform s"
  "filter isEmailSend (effects (showFormMessage m t s)) = filter isEmailSend (effects s)"
  by (simp_all add: showFormMessage_def Let_def isEmailSend_def split: option.splits)

lemma showFormMessage_error:
  "bannerPresent s \<Longrightarrow> t \<noteq> ''success'' \<Longrightarrow> errorBannerShown m (showFormMessage m t s)"
  by (auto simp: bannerPresent_def errorBannerShown_def showFormMessage_def Let_def
      split: option.splits)

lemma showFormMessage_absent:
  "\<not> bannerPresent s \<Longrightarrow> showFormMessage m t s = s"
  by (auto simp: bannerPresent_def showFormMessage_def split: option.splits)

lemma validateRequired_result:
  assumes "\<forall>f \<in> set flds. required f \<longrightarrow> labelReads pf lbls f"
  shows "\<exists>errs'. validateRequired pf lbls flds ok errs =
           (Inr (ok \<and> (\<forall>f \<in> set flds. required f \<longrightarrow> fieldMessage pf lbls f = None)),
            map (\<lambda>f. if required f then validatedField pf lbls f else f) flds, errs')"
  using validateRequired_valid [OF assms, of ok errs] validateRequired_fields [OF assms, of ok errs]
  by (cases "validateRequired pf lbls flds ok errs") simp



subsection \<open>The handler\<close>

lemma trim_examples:
  "trim ''Jane Doe'' = ''Jane Doe''" "trim ''jane@example.com'' = ''jane@example.com''"
  "trim ''Hello'' = ''Hello''" "trim ''not-an-email'' = ''not-an-email''" "trim [] = []"
  by (simp_all add: trim_def isWhiteSpace_def)

lemma textField_simps:
  "required (textField tg nm ty req v) = req"
  "fieldName (textField tg nm ty req v) = nm"
  "fieldId (textField tg nm ty req v) = nm"
  "fieldValue (textField tg nm ty req v) = v"
  "errorId (textField tg nm ty req v) = nm @ ''-error''"
  by (simp_all add: textField_def errorId_def)

lemma plainId_examples: "plainId ''name''" "plainId ''email''" "plainId ''message''"
  by (simp_all add: plainId_def plainChar_def)

lemma janeForm_reads:
  "\<forall>f \<in> set (formFields janeForm). required f \<longrightarrow> labelReads (platform janeForm) (labels janeForm) f"
  by (simp add: janeForm_def textField_simps labelReads_plain plainId_examples)

lemma janeForm_rules:
  "\<forall>f \<in> set (formFields janeForm). required f \<longrightarrow>
     fieldMessage (platform janeForm) (labels janeForm) f = None"
  by (simp add: janeForm_def fieldMessage_def textField_def ruleMessage_def trim_examples
      isValidEmail_examples)

lemma handle_valid:
  assumes "\<not> isSubmitting s"
    and "\<forall>f \<in> set (formFields s). required f \<longrightarrow> labelReads (platform s) (labels s) f"
    and "\<forall>f \<in> set (formFields s). required f \<longrightarrow> fieldMessage (platform s) (labels s) f = None"
    and "submitBtn s = Some btn" and "emailjsDefined s"
  shows "handleContactSubmission s =
           (let s3 = s\<lparr>formFields := map (\<lambda>f. if required f then validatedField (platform s) (labels s) f else f) (formFields s),
                       errorElements := snd (snd (validateRequired (platform s) (labels s) (formFields s) True (errorElements s))),
                       isSubmitting := True,
                       submitBtn := Some (btn\<lparr>innerHTML := readBack (platform s) (loadingMarkup ''Sending...''),
                                              disabled := True\<rparr>)\<rparr>;
                params = buildTemplateParams s3
            in Awaiting (s3\<lparr>effects := effects s @ [EmailSend serviceId templateId params]\<rparr>)
                        \<lparr>originalContent = innerHTML btn, finalTemplateParams = params\<rparr>)"
proof -
  from validateRequired_result [OF assms(2), of True "errorElements s"] obtain errs' where
    v: "validateRequired (platform s) (labels s) (formFields s) True (errorElements s) =
          (Inr (True \<and> (\<forall>f \<in> set (formFields s). required f \<longrightarrow> fieldMessage (platform s) (labels s) f = None)),
           map (\<lambda>f. if required f then validatedField (platform s) (labels s) f else f) (formFields s), errs')"
    by blast
  show ?thesis using assms(1,3,4,5)
    by (simp add: handleContactSubmission_def showLoading_def Let_def v)
qed

lemma buildTemplateParams_keys:
  "map_of (buildTemplateParams s) ''service'' = None"
  "map_of (buildTemplateParams s) ''budget'' = None"
  by (simp_all add: buildTemplateParams_def Let_def)

lemma finallyBlock_simps:
  "isSubmitting (finallyBlock original s) = False"
  "submitBtn (finallyBlock original s) =
     map_option (\<lambda>btn. btn\<lparr>innerHTML := readBack (platform s) original, disabled := False\<rparr>) (submitBtn s)"
  "effects (finallyBlock original s) = effects s"
  "feedback (finallyBlock original s) = feedback s"
  "successEl (finallyBlock original s) = successEl s"
  "errorEl (finallyBlock original s) = errorEl s"
  by (simp_all add: finallyBlock_def hideLoading_def)

lemma errorBannerShown_finallyBlock:
  "errorBannerShown m (finallyBlock original s) = errorBannerShown m s"
  by (simp add: errorBannerShown_def finallyBlock_simps)

lemma catchBlock_simps:
  "isSubmitting (catchBlock err s) = isSubmitting s"
  "submitBtn (catchBlock err s) = submitBtn s"
  "platform (catchBlock err s) = platform s"
  "ConsoleError ''Form submission failed:'' err \<in> set (effects (catchBlock err s))"
  "filter isEmailSend (effects (catchBlock err s)) = filter isEmailSend (effects s)"
  by (simp_all add: catchBlock_def showFormMessage_def Let_def isEmailSend_def split: option.splits)

lemma catchBlock_banner:
  "bannerPresent s \<Longrightarrow> errorBannerShown sorryMessage (catchBlock err s)"
  unfolding catchBlock_def
  by (rule showFormMessage_error) (simp_all add: bannerPresent_def)

lemma resume_keeps_flag_and_button:
  "isSubmitting (resumeSubmission outcome p s) = False \<and>
   submitBtn (resumeSubmission outcome p s) =
     map_option (\<lambda>btn. btn\<lparr>innerHTML := readBack (platform s) (originalContent p), disabled := False\<rparr>)
       (submitBtn s)"
  by (cases outcome)
     (simp_all add: resumeSubmission_def finallyBlock_simps catchBlock_simps trackEvent_def
        formReset_def showFormMessage_keeps)

lemma janeForm_button:
  "\<not> isSubmitting janeForm"
  "submitBtn janeForm = Some \<lparr>innerHTML = ''Send Message'', disabled = False\<rparr>"
  "emailjsDefined janeForm" "effects janeForm = []"
  "readBack (platform janeForm) = readBackP"
  by (simp_all add: janeForm_def examplePlatform_def)

lemma janeForm_awaiting:
  "\<exists>s1 p. handleContactSubmission janeForm = Awaiting s1 p \<and> isSubmitting s1 \<and>
     effects s1 = [EmailSend serviceId templateId (finalTemplateParams p)] \<and>
     gtagDefined s1 \<and> bannerPresent s1 \<and> readBack (platform s1) = readBackP \<and>
     submitBtn s1 = Some \<lparr>innerHTML = loadingMarkup ''Sending...'', disabled = True\<rparr> \<and>
     originalContent p = ''Send Message'' \<and>
     map_of (finalTemplateParams p) ''service'' = None \<and>
     map_of (finalTemplateParams p) ''budget'' = None"
  using handle_valid [OF janeForm_button(1) janeForm_reads janeForm_rules janeForm_button(2,3)]
  by (simp add: Let_def buildTemplateParams_keys bannerPresent_def janeForm_button readBackP_loadingMarkup)
     (simp add: janeForm_def)

lemma buildTemplateParams_cong:
  "formFields a = formFields b \<Longrightarrow> timestamp a = timestamp b \<Longrightarrow> userAgent a = userAgent b \<Longrightarrow>
   pageUrl a = pageUrl b \<Longrightarrow> buildTemplateParams a = buildTemplateParams b"
  by (simp only: buildTemplateParams_def collectTemplateParams_def)

lemma janeForm_validated:
  "map (\<lambda>f. if required f then validatedField (platform janeForm) (labels janeForm) f else f)
     (formFields janeForm) = formFields janeForm"
  by (simp add: janeForm_def textField_def validatedField_def fieldMessage_def ruleMessage_def
      trim_examples isValidEmail_examples)

lemma buildTemplateParams_user:
  "map_of (buildTemplateParams s) ''user_service'' =
     Some (finalValue (collectTemplateParams s) ''service'' (queryField ''service'' Select (formFields s)))"
  "map_of (buildTemplateParams s) ''user_budget'' =
     Some (finalValue (collectTemplateParams s) ''budget'' (queryField ''budget'' Select (formFields s)))"
  by (simp_all add: buildTemplateParams_def Let_def)

lemma janeForm_collected:
  "collectTemplateParams janeForm ''service'' = Some ''consulting''"
  "collectTemplateParams janeForm ''budget'' = Some ''5k-10k''"
  by (simp_all add: collectTemplateParams_def Let_def janeForm_def textField_def formDataEntries_def
      inFormData_def isButtonType_def queryField_def captureField_def truthy_def)

lemma janeForm_selection:
  "map_of (buildTemplateParams janeForm) ''user_service'' = Some ''consulting''"
  "map_of (buildTemplateParams janeForm) ''user_budget'' = Some ''5k-10k''"
  by (simp_all add: buildTemplateParams_user finalValue_def paramOr_def janeForm_collected truthy_def)

lemma resume_resolved_effects:
  "bannerPresent s \<Longrightarrow>
   effects (resumeSubmission Resolved p s) =
     effects s @ [ScrollIntoView] @
     (if gtagDefined s
      then [Gtag ''event'' ''contact_form_submit''
              [(''service'', map_of (finalTemplateParams p) ''service''),
               (''budget'', map_of (finalTemplateParams p) ''budget'')]]
      else []) @
     [EventTracked ''contact_form_submit''
        [(''service'', map_of (finalTemplateParams p) ''service''),
         (''budget'', map_of (finalTemplateParams p) ''budget'')]]"
  by (auto simp: bannerPresent_def resumeSubmission_def finallyBlock_simps trackEvent_def
      formReset_def showFormMessage_def Let_def)

lemma janeForm_suspended:
  "handleContactSubmission janeForm =
     Awaiting
       (janeForm\<lparr>errorElements := snd (snd (validateRequired (platform janeForm) (labels janeForm)
                                               (formFields janeForm) True (errorElements janeForm))),
                 isSubmitting := True,
                 submitBtn := Some \<lparr>innerHTML = loadingMarkup ''Sending...'', disabled = True\<rparr>,
                 effects := [EmailSend serviceId templateId (buildTemplateParams janeForm)]\<rparr>)
       \<lparr>originalContent = ''Send Message'', finalTemplateParams = buildTemplateParams janeForm\<rparr>"
proof -
  let ?s3 = "janeForm\<lparr>formFields := map (\<lambda>f. if required f then validatedField (platform janeForm) (labels janeForm) f else f) (formFields janeForm),
                       errorElements := snd (snd (validateRequired (platform janeForm) (labels janeForm) (formFields janeForm) True (errorElements janeForm))),
                       isSubmitting := True,
                       submitBtn := Some (\<lparr>innerHTML = ''Send Message'', disabled = False\<rparr>\<lparr>innerHTML := readBack (platform janeForm) (loadingMarkup ''Sending...''), disabled := True\<rparr>)\<rparr>"
  have b: "buildTemplateParams ?s3 = buildTemplateParams janeForm"
    by (rule buildTemplateParams_cong) (simp_all add: janeForm_validated)
  from handle_valid [OF janeForm_button(1) janeForm_reads janeForm_rules janeForm_button(2,3)] b
  show ?thesis
    by (simp add: Let_def janeForm_validated janeForm_button readBackP_loadingMarkup)
qed

lemma awaiting_inversion:
  assumes "handleContactSubmission s = Awaiting s1 p"
  shows "\<exists>btn. submitBtn s = Some btn \<and> originalContent p = innerHTML btn \<and>
           submitBtn s1 = Some (btn\<lparr>innerHTML := readBack (platform s) (loadingMarkup ''Sending...''),
                                    disabled := True\<rparr>) \<and>
           isSubmitting s1 \<and> \<not> isSubmitting s \<and> bannerPresent s1 = bannerPresent s \<and>
           platform s1 = platform s \<and>
           effects s1 = effects s @ [EmailSend serviceId templateId (finalTemplateParams p)]"
  using assms
  by (auto simp: handleContactSubmission_def showLoading_def Let_def bannerPresent_def
      split: if_splits prod.splits option.splits sum.splits)

lemma noBannerForm_facts:
  "\<not> isSubmitting noBannerForm"
  "\<forall>f \<in> set (formFields noBannerForm). required f \<longrightarrow>
     labelReads (platform noBannerForm) (labels noBannerForm) f"
  "\<forall>f \<in> set (formFields noBannerForm). required f \<longrightarrow>
     fieldMessage (platform noBannerForm) (labels noBannerForm) f = None"
  "submitBtn noBannerForm = Some \<lparr>innerHTML = ''Send Message'', disabled = False\<rparr>"
  "emailjsDefined noBannerForm" "\<not> bannerPresent noBannerForm"
  using janeForm_rules janeForm_reads
  by (simp_all add: noBannerForm_def bannerPresent_def) (simp_all add: janeForm_def)





section \<open>The claims about the contact form\<close>




text \<open>
  C3: in a state where a submission is in flight (\<open>isSubmitting\<close> is true) a further
  call of the handler returns at once and leaves the whole state as it is: no field is
  validated again, no effect (no \<open>EmailSend\<close>) is added, and the flag, the button and
  the banner are unchanged.
\<close>

theorem in_flight_noop:
  "isSubmitting s \<Longrightarrow> handleContactSubmission s = Returned s"
  by (simp add: handleContactSubmission_def)

theorem in_flight_noop_witness:
  "isSubmitting (stateOf (handleContactSubmission janeForm)) \<and>
   handleContactSubmission (stateOf (handleContactSubmission janeForm)) =
     Returned (stateOf (handleContactSubmission janeForm))"
proof -
  from janeForm_awaiting obtain s1 p where
    h: "handleContactSubmission janeForm = Awaiting s1 p" and i: "isSubmitting s1" by blast
  from in_flight_noop [OF i] h i show ?thesis by (simp add: stateOf_def)
qed




text \<open>
  C9 as stated fails on a page without the banner elements: the send call is made and
  rejects, the error is logged and the flag and the button are reset, but
  \<open>showFormMessage\<close> returns at its guard and no error banner is shown.
\<close>

theorem failed_send_without_banner_counterexample:
  "isEmailSend (last (effects (stateOf (handleContactSubmission noBannerForm)))) \<and>
   \<not> errorBannerShown sorryMessage (submitAndSettle (Rejected ''Network Error'') noBannerForm) \<and>
   feedback (submitAndSettle (Rejected ''Network Error'') noBannerForm) = None"
proof -
  from handle_valid [OF noBannerForm_facts(1-5)]
  obtain s1 p where h: "handleContactSubmission noBannerForm = Awaiting s1 p"
    by (simp add: Let_def)
  from awaiting_inversion [OF h] noBannerForm_facts(6)
  have nb: "\<not> bannerPresent s1" and e: "effects s1 = effects noBannerForm @ [EmailSend serviceId templateId (finalTemplateParams p)]"
    by auto
  have f: "feedback s1 = None"
    using h noBannerForm_facts(1)
    by (auto simp: handleContactSubmission_def showLoading_def Let_def noBannerForm_def
        split: if_splits prod.splits option.splits sum.splits)
  have "catchBlock ''Network Error'' s1 = s1\<lparr>effects := effects s1 @ [ConsoleError ''Form submission failed:'' ''Network Error'']\<rparr>"
    using nb unfolding catchBlock_def by (simp add: showFormMessage_absent bannerPresent_def)
  then have "feedback (resumeSubmission (Rejected ''Network Error'') p s1) = None"
    using f by (simp add: resumeSubmission_def finallyBlock_simps)
  then show ?thesis using h e
    by (simp add: submitAndSettle_def stateOf_def errorBannerShown_def isEmailSend_def)
qed

text \<open>
  C9, amended: for every submission attempt that reached the send call, whatever the
  outcome of the call and whatever state \<open>s2\<close> the page is in when it settles, the rest
  of the handler sets the submitting flag to false and restores the submit button (the
  content saved before the attempt is assigned back, and the button is not disabled), so
  a retry is possible; when the call rejects, the error is logged with
  \<^verbatim>\<open>console.error\<close>, no further send call is made, and the error banner is shown if
  the page has the three banner elements. The button's content reads afterwards as the
  browser reads the saved markup back: it is the button as it was before the attempt,
  not disabled, whenever that markup reads back as itself.
\<close>

theorem failed_send_resets:
  assumes "handleContactSubmission s = Awaiting s1 p"
  shows "isSubmitting s1 \<and>
         (\<exists>btn. submitBtn s = Some btn \<and> originalContent p = innerHTML btn \<and>
            submitBtn s1 = Some (btn\<lparr>innerHTML := readBack (platform s) (loadingMarkup ''Sending...''),
                                     disabled := True\<rparr>) \<and>
            submitBtn (resumeSubmission outcome p s1) =
              Some (btn\<lparr>innerHTML := readBack (platform s) (innerHTML btn), disabled := False\<rparr>) \<and>
            (readBack (platform s) (innerHTML btn) = innerHTML btn \<longrightarrow>
               submitBtn (resumeSubmission outcome p s1) = Some (btn\<lparr>disabled := False\<rparr>))) \<and>
         isSubmitting (resumeSubmission outcome p s2) = False \<and>
         submitBtn (resumeSubmission outcome p s2) =
           map_option (\<lambda>btn. btn\<lparr>innerHTML := readBack (platform s2) (originalContent p), disabled := False\<rparr>)
             (submitBtn s2) \<and>
         ConsoleError ''Form submission failed:'' err \<in> set (effects (resumeSubmission (Rejected err) p s2)) \<and>
         filter isEmailSend (effects (resumeSubmission (Rejected err) p s2)) = filter isEmailSend (effects s2) \<and>
         (bannerPresent s2 \<longrightarrow> errorBannerShown sorryMessage (resumeSubmission (Rejected err) p s2))"
proof -
  from awaiting_inversion [OF assms] obtain btn where
    b: "submitBtn s = Some btn" "originalContent p = innerHTML btn"
       "submitBtn s1 = Some (btn\<lparr>innerHTML := readBack (platform s) (loadingMarkup ''Sending...''),
                                disabled := True\<rparr>)"
       "isSubmitting s1" "platform s1 = platform s"
    by blast
  have r1: "submitBtn (resumeSubmission outcome p s1) =
              Some (btn\<lparr>innerHTML := readBack (platform s) (innerHTML btn), disabled := False\<rparr>)"
    using resume_keeps_flag_and_button [of outcome p s1] b by simp
  then have r1': "readBack (platform s) (innerHTML btn) = innerHTML btn \<longrightarrow>
               submitBtn (resumeSubmission outcome p s1) = Some (btn\<lparr>disabled := False\<rparr>)"
    by simp
  have r2: "isSubmitting (resumeSubmission outcome p s2) = False"
    "submitBtn (resumeSubmission outcome p s2) =
       map_option (\<lambda>btn. btn\<lparr>innerHTML := readBack (platform s2) (originalContent p), disabled := False\<rparr>)
         (submitBtn s2)"
    using resume_keeps_flag_and_button [of outcome p s2] by simp_all
  have c: "ConsoleError ''Form submission failed:'' err \<in> set (effects (resumeSubmission (Rejected err) p s2))"
    by (simp add: resumeSubmission_def finallyBlock_simps catchBlock_simps)
  have e: "filter isEmailSend (effects (resumeSubmission (Rejected err) p s2)) = filter isEmailSend (effects s2)"
    by (simp add: resumeSubmission_def finallyBlock_simps catchBlock_simps)
  have d: "bannerPresent s2 \<longrightarrow> errorBannerShown sorryMessage (resumeSubmission (Rejected err) p s2)"
    by (simp add: resumeSubmission_def errorBannerShown_finallyBlock catchBlock_banner)
  from b r1 r1' r2 c d e show ?thesis by simp
qed

theorem failed_send_resets_witness:
  "isSubmitting (submitAndSettle (Rejected ''Network Error'') janeForm) = False \<and>
   submitBtn (submitAndSettle (Rejected ''Network Error'') janeForm) =
     Some \<lparr>innerHTML = ''Send Message'', disabled = False\<rparr> \<and>
   errorBannerShown sorryMessage (submitAndSettle (Rejected ''Network Error'') janeForm) \<and>
   ConsoleError ''Form submission failed:'' ''Network Error''
     \<in> set (effects (submitAndSettle (Rejected ''Network Error'') janeForm))"
proof -
  from janeForm_awaiting obtain s1 p where
    h: "handleContactSubmission janeForm = Awaiting s1 p" and bp: "bannerPresent s1" by blast
  from failed_send_resets [OF h, of "Rejected ''Network Error''" s1 "''Network Error''"] bp
    janeForm_button(2,5)
  show ?thesis by (auto simp: submitAndSettle_def h readBackP_examples)
qed

text \<open>
  C1: the analytics event of a successful submission is claimed to carry the selected
  service and budget. The handler passes \<^verbatim>\<open>finalTemplateParams.service\<close> and
  \<^verbatim>\<open>finalTemplateParams.budget\<close>, and the object it built has no such keys on any
  page (the selections are under \<^verbatim>\<open>user_service\<close> and \<^verbatim>\<open>user_budget\<close>). On the
  filled-in form with service consulting and budget 5k-10k, a submission whose send call
  resolves sends the mail, shows the banner and tracks the event with both properties
  \<^verbatim>\<open>undefined\<close>.
\<close>

theorem tracked_event_lacks_selection:
  "map_of (buildTemplateParams s) ''service'' = None \<and>
   map_of (buildTemplateParams s) ''budget'' = None \<and>
   map_of (buildTemplateParams janeForm) ''user_service'' = Some ''consulting'' \<and>
   map_of (buildTemplateParams janeForm) ''user_budget'' = Some ''5k-10k'' \<and>
   effects (submitAndSettle Resolved janeForm) =
     [EmailSend serviceId templateId (buildTemplateParams janeForm),
      ScrollIntoView,
      Gtag ''event'' ''contact_form_submit'' [(''service'', None), (''budget'', None)],
      EventTracked ''contact_form_submit'' [(''service'', None), (''budget'', None)]]"
proof -
  have bp: "bannerPresent (janeForm\<lparr>errorElements := snd (snd (validateRequired (platform janeForm) (labels janeForm)
                                               (formFields janeForm) True (errorElements janeForm))),
                 isSubmitting := True,
                 submitBtn := Some \<lparr>innerHTML = loadingMarkup ''Sending...'', disabled = True\<rparr>,
                 effects := [EmailSend serviceId templateId (buildTemplateParams janeForm)]\<rparr>)"
    by (simp add: bannerPresent_def janeForm_def)
  have g: "gtagDefined janeForm" by (simp add: janeForm_def)
  have "effects (submitAndSettle Resolved janeForm) =
     [EmailSend serviceId templateId (buildTemplateParams janeForm),
      ScrollIntoView,
      Gtag ''event'' ''contact_form_submit'' [(''service'', None), (''budget'', None)],
      EventTracked ''contact_form_submit'' [(''service'', None), (''budget'', None)]]"
    by (simp add: submitAndSettle_def janeForm_suspended resume_resolved_effects [OF bp]
        buildTemplateParams_keys g)
  then show ?thesis
    by (simp add: buildTemplateParams_keys janeForm_selection)
qed

end
